theory Spec2Isabelle
  imports Complex_Main
begin

section \<open>Fantrove Console API: a shallow embedding of the Cloudflare worker\<close>

text \<open>
  The repository holds two versions of one worker: \<^verbatim>\<open>src/worker.js\<close> and
  \<^verbatim>\<open>src/unnamed/part_000\<close>. Both are embedded. A definition without a suffix is
  the function of \<^verbatim>\<open>src/worker.js\<close>; the suffix \<open>_part000\<close> marks the function
  of \<^verbatim>\<open>src/unnamed/part_000\<close>. \<open>insertSingleLog\<close> is the same text in both
  files and is embedded once.
\<close>

subsection \<open>JavaScript values\<close>

text \<open>
  A value of the worker: what \<^verbatim>\<open>JSON.parse\<close> can produce, and \<^verbatim>\<open>undefined\<close>
  (the value of a property that is not there). A number is the rational it denotes
  (a finite double is one); a string is its bytes in UTF-8; an object is the list of
  its own properties, read with \<open>map_of\<close>.
\<close>

datatype jsval =
    Undefined
  | Null
  | Bool bool
  | Num rat
  | Str string
  | Arr "jsval list"
  | Obj "(string \<times> jsval) list"

text \<open>What the runtime throws. \<open>Error m\<close> is \<^verbatim>\<open>new Error(m)\<close> of the worker's own
  code; \<open>NullAccess p\<close> is the TypeError of reading property \<open>p\<close> of
  \<^verbatim>\<open>null\<close>; \<open>PlatformError m\<close> is an exception of the platform (a body that
  is not JSON, a fetch that fails) with its message.\<close>

datatype js_error =
    Error string
  | NullAccess string
  | PlatformError string

text \<open>ToBoolean: \<^verbatim>\<open>undefined\<close>, \<^verbatim>\<open>null\<close>, \<^verbatim>\<open>false\<close>, zero and the empty
  string are falsy; every array and object is truthy.\<close>

fun truthy :: "jsval \<Rightarrow> bool" where
  "truthy Undefined = False"
| "truthy Null = False"
| "truthy (Bool b) = b"
| "truthy (Num n) = (n \<noteq> 0)"
| "truthy (Str s) = (s \<noteq> [])"
| "truthy (Arr xs) = True"
| "truthy (Obj kvs) = True"

text \<open>\<^verbatim>\<open>a || b\<close>.\<close>

definition js_or :: "jsval \<Rightarrow> jsval \<Rightarrow> jsval" where
  "js_or a b = (if truthy a then a else b)"

text \<open>\<^verbatim>\<open>v.p\<close> for the property names the worker reads (\<^verbatim>\<open>logs\<close>,
  \<^verbatim>\<open>level\<close>, \<^verbatim>\<open>message\<close>, \<^verbatim>\<open>session_id\<close>, ...): none of them is a
  property of the prototypes of arrays, strings, numbers, booleans or objects, so
  off an object's own properties the result is \<^verbatim>\<open>undefined\<close>. Reading a
  property of \<^verbatim>\<open>null\<close> or \<^verbatim>\<open>undefined\<close> throws.\<close>

fun get_prop :: "jsval \<Rightarrow> string \<Rightarrow> js_error + jsval" where
  "get_prop Undefined p = Inl (NullAccess p)"
| "get_prop Null p = Inl (NullAccess p)"
| "get_prop (Obj kvs) p = Inr (case map_of kvs p of None \<Rightarrow> Undefined | Some v \<Rightarrow> v)"
| "get_prop (Bool b) p = Inr Undefined"
| "get_prop (Num n) p = Inr Undefined"
| "get_prop (Str s) p = Inr Undefined"
| "get_prop (Arr xs) p = Inr Undefined"

text \<open>\<^verbatim>\<open>Array.isArray(v)\<close>.\<close>

fun isArray :: "jsval \<Rightarrow> bool" where
  "isArray (Arr xs) = True"
| "isArray v = False"

text \<open>The elements of an array value (called only where \<open>isArray\<close> holds).\<close>

fun elements :: "jsval \<Rightarrow> jsval list" where
  "elements (Arr xs) = xs"
| "elements v = []"

text \<open>\<^verbatim>\<open>result[0]\<close>: the first element of an array, property \<^verbatim>\<open>"0"\<close> of an
  object, the first character of a string (its first byte here, which is the
  character when it is ASCII); it throws on \<^verbatim>\<open>null\<close>.\<close>

fun index0 :: "jsval \<Rightarrow> js_error + jsval" where
  "index0 Undefined = Inl (NullAccess ''0'')"
| "index0 Null = Inl (NullAccess ''0'')"
| "index0 (Arr xs) = Inr (case xs of [] \<Rightarrow> Undefined | x # _ \<Rightarrow> x)"
| "index0 (Obj kvs) = Inr (case map_of kvs ''0'' of None \<Rightarrow> Undefined | Some v \<Rightarrow> v)"
| "index0 (Str s) = Inr (case s of [] \<Rightarrow> Undefined | c # _ \<Rightarrow> Str [c])"
| "index0 (Bool b) = Inr Undefined"
| "index0 (Num n) = Inr Undefined"

subsection \<open>Numbers and strings of the platform\<close>

text \<open>The numbers the worker computes with are doubles that hold an integer, or
  \<^verbatim>\<open>NaN\<close>. Every integer of magnitude at most \<open>2 ^ 53\<close> is a double:
  \<open>Exact n\<close>. For an integer \<open>n\<close> beyond that, the double is what the engine rounds
  \<open>n\<close> to (an infinity when \<open>n\<close> is out of range; past twenty significant digits the
  standard leaves the rounding to the engine): \<open>Rounded n\<close>, a double with the sign of
  \<open>n\<close> and of magnitude at least \<open>2 ^ 53\<close>, the larger the larger \<open>n\<close> is.\<close>

datatype jsnum = NaN | Exact int | Rounded int

definition to_number :: "int \<Rightarrow> jsnum" where
  "to_number n = (if \<bar>n\<bar> \<le> 2 ^ 53 then Exact n else Rounded n)"

text \<open>The decimal digits of an integer, with a minus sign when it is negative: the
  text of an \<open>Exact\<close> number in a template literal, and of a response status.\<close>

fun digits :: "nat \<Rightarrow> string" where
  "digits n = (if n < 10 then [''0123456789'' ! n]
     else digits (n div 10) @ [''0123456789'' ! (n mod 10)])"

declare digits.simps [simp del]

definition num_to_string :: "int \<Rightarrow> string" where
  "num_to_string i = (if i < 0 then CHR ''-'' # digits (nat (- i)) else digits (nat i))"

text \<open>The white space \<^verbatim>\<open>parseInt\<close> skips: the ASCII ones, and in UTF-8 the
  no-break space, U+1680, U+2000 to U+200A, U+2028, U+2029, U+202F, U+205F, U+3000 and
  U+FEFF.\<close>

definition ascii_ws :: "char \<Rightarrow> bool" where
  "ascii_ws c = (c = CHR 0x09 \<or> c = CHR 0x0A \<or> c = CHR 0x0B \<or> c = CHR 0x0C
     \<or> c = CHR 0x0D \<or> c = CHR 0x20)"

definition ws3 :: "char \<Rightarrow> char \<Rightarrow> char \<Rightarrow> bool" where
  "ws3 a b c =
     ((a = CHR 0xE1 \<and> b = CHR 0x9A \<and> c = CHR 0x80)
    \<or> (a = CHR 0xE2 \<and> b = CHR 0x80 \<and> (0x80::nat) \<le> of_char c \<and> of_char c \<le> (0x8A::nat))
    \<or> (a = CHR 0xE2 \<and> b = CHR 0x80 \<and> (c = CHR 0xA8 \<or> c = CHR 0xA9 \<or> c = CHR 0xAF))
    \<or> (a = CHR 0xE2 \<and> b = CHR 0x81 \<and> c = CHR 0x9F)
    \<or> (a = CHR 0xE3 \<and> b = CHR 0x80 \<and> c = CHR 0x80)
    \<or> (a = CHR 0xEF \<and> b = CHR 0xBB \<and> c = CHR 0xBF))"

fun strip_ws :: "string \<Rightarrow> string" where
  "strip_ws (a # b # c # s) =
     (if ascii_ws a then strip_ws (b # c # s)
      else if a = CHR 0xC2 \<and> b = CHR 0xA0 then strip_ws (c # s)
      else if ws3 a b c then strip_ws s
      else a # b # c # s)"
| "strip_ws [a, b] =
     (if ascii_ws a then strip_ws [b]
      else if a = CHR 0xC2 \<and> b = CHR 0xA0 then []
      else [a, b])"
| "strip_ws [a] = (if ascii_ws a then [] else [a])"
| "strip_ws [] = []"

text \<open>The value of a digit in radix 10 or 16.\<close>

definition digit_val :: "nat \<Rightarrow> char \<Rightarrow> nat option" where
  "digit_val radix c =
     (let n = (of_char c :: nat) in
      if 48 \<le> n \<and> n \<le> 57 then Some (n - 48)
      else if radix = 16 \<and> 97 \<le> n \<and> n \<le> 102 then Some (n - 87)
      else if radix = 16 \<and> 65 \<le> n \<and> n \<le> 70 then Some (n - 55)
      else None)"

text \<open>The longest prefix of digits, read from the left: the number read so far and
  whether a digit was seen.\<close>

fun read_digits :: "nat \<Rightarrow> string \<Rightarrow> nat \<Rightarrow> bool \<Rightarrow> nat option" where
  "read_digits radix [] acc seen = (if seen then Some acc else None)"
| "read_digits radix (c # s) acc seen =
     (case digit_val radix c of
        None \<Rightarrow> (if seen then Some acc else None)
      | Some d \<Rightarrow> read_digits radix s (acc * radix + d) True)"

text \<open>\<^verbatim>\<open>parseInt(s)\<close> with no radix: white space, a sign, a \<^verbatim>\<open>0x\<close> prefix
  (then radix 16), the longest prefix of digits, and the double for the integer they
  denote; \<^verbatim>\<open>NaN\<close> when there is no digit.\<close>

definition js_parseInt_string :: "string \<Rightarrow> jsnum" where
  "js_parseInt_string s =
     (let s1 = strip_ws s;
          neg = (take 1 s1 = ''-'');
          s2 = (if take 1 s1 = ''-'' \<or> take 1 s1 = ''+'' then drop 1 s1 else s1);
          hex = (take 2 s2 = ''0x'' \<or> take 2 s2 = ''0X'');
          radix = (if hex then 16 else 10);
          s3 = (if hex then drop 2 s2 else s2)
      in case read_digits radix s3 0 False of
           None \<Rightarrow> NaN
         | Some n \<Rightarrow> to_number (if neg then - int n else int n))"

text \<open>\<^verbatim>\<open>parseInt(url.searchParams.get(name))\<close>: a parameter that is absent is
  \<^verbatim>\<open>null\<close>, which \<^verbatim>\<open>parseInt\<close> reads as the string \<^verbatim>\<open>"null"\<close>.\<close>

definition js_parseInt :: "string option \<Rightarrow> jsnum" where
  "js_parseInt p = js_parseInt_string (case p of None \<Rightarrow> ''null'' | Some s \<Rightarrow> s)"

text \<open>\<^verbatim>\<open>n || d\<close> for a number: \<^verbatim>\<open>NaN\<close> and zero are falsy.\<close>

fun num_or :: "jsnum \<Rightarrow> jsnum \<Rightarrow> jsnum" where
  "num_or NaN d = d"
| "num_or (Exact n) d = (if n = 0 then d else Exact n)"
| "num_or (Rounded n) d = Rounded n"

text \<open>\<^verbatim>\<open>Math.min(x, y)\<close>: \<^verbatim>\<open>NaN\<close> when either is; a \<open>Rounded\<close> number is below
  every \<open>Exact\<close> one when it is negative and not below any when it is positive.\<close>

fun js_min :: "jsnum \<Rightarrow> jsnum \<Rightarrow> jsnum" where
  "js_min NaN y = NaN"
| "js_min (Exact a) NaN = NaN"
| "js_min (Rounded a) NaN = NaN"
| "js_min (Exact a) (Exact b) = Exact (min a b)"
| "js_min (Rounded a) (Exact b) = (if a < 0 then Rounded a else Exact b)"
| "js_min (Exact a) (Rounded b) = (if b < 0 then Rounded b else Exact a)"
| "js_min (Rounded a) (Rounded b) = Rounded (min a b)"

text \<open>\<^verbatim>\<open>encodeURIComponent\<close>: letters, digits and \<^verbatim>\<open>- _ . ! ~ * ' ( )\<close> stay;
  every other byte of the UTF-8 string becomes \<^verbatim>\<open>%XX\<close>.\<close>

definition unreserved :: "char \<Rightarrow> bool" where
  "unreserved c =
     (let n = (of_char c :: nat) in
      (65 \<le> n \<and> n \<le> 90) \<or> (97 \<le> n \<and> n \<le> 122) \<or> (48 \<le> n \<and> n \<le> 57)
      \<or> c = CHR ''-'' \<or> c = CHR ''_'' \<or> c = CHR ''.'' \<or> c = CHR ''!'' \<or> c = CHR ''~''
      \<or> c = CHR ''*'' \<or> c = CHR 0x27 \<or> c = CHR ''('' \<or> c = CHR '')'')"

definition hex_digit :: "nat \<Rightarrow> char" where
  "hex_digit n = ''0123456789ABCDEF'' ! n"

definition percent :: "char \<Rightarrow> string" where
  "percent c = [CHR ''%'', hex_digit (of_char c div 16), hex_digit (of_char c mod 16)]"

definition encodeURIComponent :: "string \<Rightarrow> string" where
  "encodeURIComponent s = concat (map (\<lambda>c. if unreserved c then [c] else percent c) s)"

subsection \<open>Requests, responses and the platform\<close>

text \<open>The inbound request, as far as the worker reads it: \<^verbatim>\<open>request.method\<close>,
  \<^verbatim>\<open>new URL(request.url).pathname\<close>, \<^verbatim>\<open>url.searchParams.get(name)\<close>,
  \<^verbatim>\<open>request.headers.get(name)\<close> (\<open>None\<close> is \<^verbatim>\<open>null\<close>), and what
  \<^verbatim>\<open>await request.json()\<close> gives: the parsed body, or the message of the
  exception when the body is not JSON.\<close>

record request =
  req_method :: string
  req_pathname :: string
  req_searchParam :: "string \<Rightarrow> string option"
  req_header :: "string \<Rightarrow> string option"
  req_json :: "string + jsval"

datatype resp_body = NoBody | TextBody string | JsonBody jsval

text \<open>A response of the worker: the status, the headers handed to
  \<^verbatim>\<open>new Response\<close>, and the body. \<open>JsonBody v\<close> is the body
  \<^verbatim>\<open>JSON.stringify(v)\<close> (which leaves out a property whose value is
  \<^verbatim>\<open>undefined\<close>).\<close>

record response =
  resp_status :: nat
  resp_headers :: "(string \<times> string) list"
  resp_body :: resp_body

record env =
  SUPABASE_URL :: string
  SUPABASE_ANON_KEY :: string

text \<open>An outbound call \<^verbatim>\<open>fetch(url, {method, headers, body})\<close>; \<open>out_body\<close> is the
  value handed to \<^verbatim>\<open>JSON.stringify\<close>.\<close>

record outreq =
  out_url :: string
  out_method :: string
  out_headers :: "(string \<times> string) list"
  out_body :: "jsval option"

text \<open>The backend's answer: its status, \<^verbatim>\<open>await response.text()\<close>, and
  \<^verbatim>\<open>await response.json()\<close> (the parsed body, or the message of the exception).
  A fetch that fails rejects with an exception.\<close>

record bresponse =
  b_status :: nat
  b_text :: string
  b_json :: "string + jsval"

datatype fetch_result = FetchFailed string | Received bresponse

text \<open>\<^verbatim>\<open>response.ok\<close>.\<close>

definition ok :: "bresponse \<Rightarrow> bool" where
  "ok r = (200 \<le> b_status r \<and> b_status r \<le> 299)"

text \<open>The world outside the worker, of any type \<open>'w\<close>: the clock
  (\<^verbatim>\<open>Date.now()\<close>, in milliseconds), \<^verbatim>\<open>new Date(t).toISOString()\<close> (for a
  time in the range of \<^verbatim>\<open>Date\<close>, as the clock's is), the backend behind
  \<^verbatim>\<open>fetch\<close> (it answers a call and moves the world on), the engine's message
  for the TypeError of reading a property of \<^verbatim>\<open>null\<close>, and the text the engine
  prints for the double it rounds an integer beyond \<open>2 ^ 53\<close> to (in V8
  \<^verbatim>\<open>9007199254740992\<close> for 9007199254740993 and \<^verbatim>\<open>-1e+21\<close> for \<open>- (10 ^ 21)\<close>).\<close>

record 'w platform =
  date_now :: "'w \<Rightarrow> int"
  toISOString :: "int \<Rightarrow> string"
  fetch :: "outreq \<Rightarrow> 'w \<Rightarrow> fetch_result \<times> 'w"
  null_access_message :: "string \<Rightarrow> string"
  rounded_text :: "int \<Rightarrow> string"

text \<open>A number in a template literal.\<close>

fun number_text :: "'w platform \<Rightarrow> jsnum \<Rightarrow> string" where
  "number_text P NaN = ''NaN''"
| "number_text P (Exact n) = num_to_string n"
| "number_text P (Rounded n) = rounded_text P n"

text \<open>The state a handler runs in: the world, and the log of the outbound calls made
  so far, each with the world it was made in.\<close>

record 'w sys =
  world :: 'w
  calls :: "('w \<times> outreq) list"

definition do_fetch :: "'w platform \<Rightarrow> outreq \<Rightarrow> 'w sys \<Rightarrow> fetch_result \<times> 'w sys" where
  "do_fetch P rq s =
     (case fetch P rq (world s) of
        (r, w') \<Rightarrow> (r, \<lparr>world = w', calls = calls s @ [(world s, rq)]\<rparr>))"

text \<open>\<^verbatim>\<open>error.message\<close>.\<close>

fun message :: "'w platform \<Rightarrow> js_error \<Rightarrow> string" where
  "message P (Error m) = m"
| "message P (PlatformError m) = m"
| "message P (NullAccess p) = null_access_message P p"

text \<open>\<^verbatim>\<open>30 * 24 * 60 * 60 * 1000\<close>.\<close>

definition thirty_days :: int where
  "thirty_days = 30 * 24 * 60 * 60 * 1000"

subsection \<open>\<^verbatim>\<open>src/worker.js\<close>\<close>

definition CORS_HEADERS :: "(string \<times> string) list" where
  "CORS_HEADERS =
     [(''Access-Control-Allow-Origin'', ''*''),
      (''Access-Control-Allow-Methods'', ''GET, POST, OPTIONS''),
      (''Access-Control-Allow-Headers'', ''Content-Type, Authorization''),
      (''Access-Control-Max-Age'', ''86400'')]"

definition jsonResponse :: "jsval \<Rightarrow> nat \<Rightarrow> response" where
  "jsonResponse data status =
     \<lparr>resp_status = status,
      resp_headers = (''Content-Type'', ''application/json'') # CORS_HEADERS,
      resp_body = JsonBody data\<rparr>"

text \<open>The headers every call to the backend starts with (the API key, twice), and then
  the header \<open>h\<close> in which a read and a write differ.\<close>

definition backend_headers :: "env \<Rightarrow> (string \<times> string) \<Rightarrow> (string \<times> string) list" where
  "backend_headers e h =
     [(''apikey'', SUPABASE_ANON_KEY e),
      (''Authorization'', ''Bearer '' @ SUPABASE_ANON_KEY e)] @ [h]"

definition handleGetLogs ::
  "'w platform \<Rightarrow> env \<Rightarrow> request \<Rightarrow> 'w sys \<Rightarrow> (js_error + response) \<times> 'w sys" where
  "handleGetLogs P e req s =
     (let sessionId = req_searchParam req ''session'';
          limit = js_min (num_or (js_parseInt (req_searchParam req ''limit'')) (Exact 100))
                    (Exact 500);
          query = SUPABASE_URL e
            @ ''/rest/v1/console_logs?select=*&order=created_at.desc&limit=''
            @ number_text P limit;
          query2 = (case sessionId of
                      None \<Rightarrow> query
                    | Some sid \<Rightarrow>
                        if sid = [] then query
                        else query @ ''&session_id=eq.'' @ encodeURIComponent sid)
      in case do_fetch P
             \<lparr>out_url = query2, out_method = ''GET'',
              out_headers = backend_headers e (''Accept'', ''application/json''),
              out_body = None\<rparr> s of
           (FetchFailed m, s') \<Rightarrow> (Inl (PlatformError m), s')
         | (Received r, s') \<Rightarrow>
             if \<not> ok r
             then (Inl (Error (''Supabase error: '' @ num_to_string (int (b_status r)))), s')
             else (case b_json r of
                     Inl m \<Rightarrow> (Inl (PlatformError m), s')
                   | Inr logs \<Rightarrow> (Inr (jsonResponse logs 200), s')))"

text \<open>\<^verbatim>\<open>headers.get(name)\<close> as a value: \<open>None\<close> is \<^verbatim>\<open>null\<close>.\<close>

definition header_val :: "string option \<Rightarrow> jsval" where
  "header_val h = (case h of None \<Rightarrow> Null | Some v \<Rightarrow> Str v)"

text \<open>Sequencing: the first step that throws ends the evaluation.\<close>

fun and_then :: "js_error + 'a \<Rightarrow> ('a \<Rightarrow> js_error + 'b) \<Rightarrow> js_error + 'b" where
  "and_then (Inl err) f = Inl err"
| "and_then (Inr v) f = f v"

text \<open>The payload of a write, the object literal that \<open>handlePostLog\<close> builds from
  \<^verbatim>\<open>body\<close> and \<open>insertSingleLog\<close> builds from \<^verbatim>\<open>log\<close>, the same text in both: the
  properties of the entry are read in the order of the literal, with the request's
  headers \<open>hdr\<close> and the clock of the world \<open>w\<close>.\<close>

definition build_payload ::
  "'w platform \<Rightarrow> jsval \<Rightarrow> (string \<Rightarrow> string option) \<Rightarrow> 'w \<Rightarrow> js_error + jsval" where
  "build_payload P entry hdr w =
     and_then (get_prop entry ''session_id'') (\<lambda>session_id.
     and_then (get_prop entry ''level'') (\<lambda>level.
     and_then (get_prop entry ''category'') (\<lambda>category.
     and_then (get_prop entry ''message'') (\<lambda>msg.
     and_then (get_prop entry ''source'') (\<lambda>source.
     and_then (get_prop entry ''meta'') (\<lambda>meta.
     and_then (get_prop entry ''stack_trace'') (\<lambda>stack_trace.
     and_then (get_prop entry ''user_agent'') (\<lambda>user_agent.
     and_then (get_prop entry ''url'') (\<lambda>url.
        Inr (Obj
          [(''session_id'', js_or session_id (Str ''unknown'')),
           (''level'', level),
           (''category'', js_or category (Str ''system'')),
           (''message'', msg),
           (''source'', js_or source (Str ''Unknown'')),
           (''meta'', js_or meta (Obj [])),
           (''stack_trace'', stack_trace),
           (''user_agent'', js_or user_agent (header_val (hdr ''User-Agent''))),
           (''url'', js_or url (header_val (hdr ''Referer''))),
           (''expires_at'',
              Str (toISOString P (date_now P w + thirty_days)))]))))))))))"

definition handlePostLog ::
  "'w platform \<Rightarrow> env \<Rightarrow> request \<Rightarrow> 'w sys \<Rightarrow> (js_error + response) \<times> 'w sys" where
  "handlePostLog P e req s =
     (case req_json req of
        Inl m \<Rightarrow> (Inl (PlatformError m), s)
      | Inr body \<Rightarrow>
     (case get_prop body ''level'' of
        Inl err \<Rightarrow> (Inl err, s)
      | Inr level \<Rightarrow>
     if \<not> truthy level
     then (Inr (jsonResponse (Obj [(''error'', Str ''Missing required fields'')]) 400), s)
     else
     (case get_prop body ''message'' of
        Inl err \<Rightarrow> (Inl err, s)
      | Inr msg \<Rightarrow>
     if \<not> truthy msg
     then (Inr (jsonResponse (Obj [(''error'', Str ''Missing required fields'')]) 400), s)
     else
     (case build_payload P body (req_header req) (world s) of
        Inl err \<Rightarrow> (Inl err, s)
      | Inr payload \<Rightarrow>
     (case do_fetch P
         \<lparr>out_url = SUPABASE_URL e @ ''/rest/v1/console_logs'', out_method = ''POST'',
          out_headers = backend_headers e (''Content-Type'', ''application/json'')
            @ [(''Prefer'', ''return=representation'')],
          out_body = Some payload\<rparr> s of
        (FetchFailed m, s') \<Rightarrow> (Inl (PlatformError m), s')
      | (Received r, s') \<Rightarrow>
          if \<not> ok r
          then (Inl (Error (''Supabase insert error: '' @ num_to_string (int (b_status r))
                  @ '' '' @ b_text r)), s')
          else (case b_json r of
                  Inl m \<Rightarrow> (Inl (PlatformError m), s')
                | Inr result \<Rightarrow>
                    (case index0 result of
                       Inl err \<Rightarrow> (Inl err, s')
                     | Inr first \<Rightarrow>
                         (Inr (jsonResponse
                            (Obj [(''success'', Bool True), (''data'', first)]) 201), s'))))))))"

text \<open>\<open>insertSingleLog\<close>: an async function, so whatever it throws settles its promise
  as rejected (\<open>Inl\<close>); it is fulfilled (\<open>Inr\<close>) with \<^verbatim>\<open>{success: true}\<close>.\<close>

definition insertSingleLog ::
  "'w platform \<Rightarrow> env \<Rightarrow> jsval \<Rightarrow> (string \<Rightarrow> string option) \<Rightarrow> 'w sys
     \<Rightarrow> (js_error + jsval) \<times> 'w sys" where
  "insertSingleLog P e entry hdr s =
     (case build_payload P entry hdr (world s) of
        Inl err \<Rightarrow> (Inl err, s)
      | Inr payload \<Rightarrow>
     (case do_fetch P
         \<lparr>out_url = SUPABASE_URL e @ ''/rest/v1/console_logs'', out_method = ''POST'',
          out_headers = backend_headers e (''Content-Type'', ''application/json'')
            @ [(''Prefer'', ''return=minimal'')],
          out_body = Some payload\<rparr> s of
        (FetchFailed m, s') \<Rightarrow> (Inl (PlatformError m), s')
      | (Received r, s') \<Rightarrow>
          if \<not> ok r
          then (Inl (Error (''Insert failed: '' @ num_to_string (int (b_status r)))), s')
          else (Inr (Obj [(''success'', Bool True)]), s')))"

text \<open>\<^verbatim>\<open>Promise.allSettled(logs.map(log => insertSingleLog(...)))\<close>: the calls start
  in the order of the entries, each settles as fulfilled or rejected whatever the
  others do, and the outcomes come back in the order of the entries. Here a call gets
  its answer when it is made, and the next call is made in the world the answer
  leaves; the backend being any function, every combination of outcomes is covered.\<close>

fun allSettled ::
  "('s \<Rightarrow> (js_error + 'a) \<times> 's) list \<Rightarrow> 's \<Rightarrow> (js_error + 'a) list \<times> 's" where
  "allSettled [] s = ([], s)"
| "allSettled (f # fs) s =
     (case f s of (r, s') \<Rightarrow> (case allSettled fs s' of (rs, s'') \<Rightarrow> (r # rs, s'')))"

text \<open>\<^verbatim>\<open>r.status === 'fulfilled'\<close> and \<^verbatim>\<open>r.status === 'rejected'\<close>.\<close>

fun fulfilled :: "js_error + 'a \<Rightarrow> bool" where
  "fulfilled (Inr v) = True"
| "fulfilled (Inl err) = False"

fun rejected :: "js_error + 'a \<Rightarrow> bool" where
  "rejected (Inl err) = True"
| "rejected (Inr v) = False"

text \<open>A JavaScript number that is a count.\<close>

definition count_val :: "nat \<Rightarrow> jsval" where
  "count_val n = Num (of_nat n)"

definition handlePostBatch ::
  "'w platform \<Rightarrow> env \<Rightarrow> request \<Rightarrow> 'w sys \<Rightarrow> (js_error + response) \<times> 'w sys" where
  "handlePostBatch P e req s =
     (case req_json req of
        Inl m \<Rightarrow> (Inl (PlatformError m), s)
      | Inr body \<Rightarrow>
     (case get_prop body ''logs'' of
        Inl err \<Rightarrow> (Inl err, s)
      | Inr logsv \<Rightarrow>
     if \<not> truthy logsv
     then (Inr (jsonResponse (Obj [(''error'', Str ''Invalid logs array'')]) 400), s)
     else if \<not> isArray logsv
     then (Inr (jsonResponse (Obj [(''error'', Str ''Invalid logs array'')]) 400), s)
     else
       (let logs = take 100 (elements logsv) in
        case allSettled (map (\<lambda>entry. insertSingleLog P e entry (req_header req)) logs) s of
          (results, s') \<Rightarrow>
            (let successful = length (filter fulfilled results);
                 failed = length (filter rejected results)
             in (Inr (jsonResponse
                   (Obj [(''success'', Bool True),
                         (''total'', count_val (length logs)),
                         (''saved'', count_val successful),
                         (''failed'', count_val failed)]) 201), s')))))"

text \<open>The \<^verbatim>\<open>try ... catch\<close> of \<open>fetch\<close>: an exception becomes the response 500
  (the \<^verbatim>\<open>console.error\<close> is not modelled).\<close>

definition catch500 ::
  "'w platform \<Rightarrow> (js_error + response) \<times> 'w sys \<Rightarrow> response \<times> 'w sys" where
  "catch500 P r =
     (case r of
        (Inr resp, s) \<Rightarrow> (resp, s)
      | (Inl err, s) \<Rightarrow> (jsonResponse (Obj [(''error'', Str (message P err))]) 500, s))"

text \<open>The worker's entry point, \<^verbatim>\<open>fetch(request, env, ctx)\<close> of the default export.\<close>

definition worker_fetch ::
  "'w platform \<Rightarrow> env \<Rightarrow> request \<Rightarrow> 'w sys \<Rightarrow> response \<times> 'w sys" where
  "worker_fetch P e req s =
     (if req_method req = ''OPTIONS''
      then (\<lparr>resp_status = 204, resp_headers = CORS_HEADERS, resp_body = NoBody\<rparr>, s)
      else catch500 P
        (if req_pathname req = ''/health''
         then (Inr (jsonResponse
                 (Obj [(''status'', Str ''ok''),
                       (''timestamp'', Str (toISOString P (date_now P (world s))))]) 200), s)
         else if req_method req = ''GET'' \<and> req_pathname req = ''/logs''
         then handleGetLogs P e req s
         else if req_method req = ''POST'' \<and> req_pathname req = ''/logs''
         then handlePostLog P e req s
         else if req_method req = ''POST'' \<and> req_pathname req = ''/logs/batch''
         then handlePostBatch P e req s
         else (Inr \<lparr>resp_status = 404, resp_headers = CORS_HEADERS,
                    resp_body = TextBody ''Not Found''\<rparr>, s)))"

subsection \<open>\<^verbatim>\<open>src/unnamed/part_000\<close>\<close>

definition CORS_HEADERS_part000 :: "(string \<times> string) list" where
  "CORS_HEADERS_part000 =
     [(''Access-Control-Allow-Origin'', ''*''),
      (''Access-Control-Allow-Methods'', ''GET, POST, OPTIONS''),
      (''Access-Control-Allow-Headers'', ''Content-Type, Authorization'')]"

definition jsonResponse_part000 :: "jsval \<Rightarrow> nat \<Rightarrow> response" where
  "jsonResponse_part000 data status =
     \<lparr>resp_status = status,
      resp_headers = (''Content-Type'', ''application/json'') # CORS_HEADERS_part000,
      resp_body = JsonBody data\<rparr>"

definition handleGetLogs_part000 ::
  "'w platform \<Rightarrow> env \<Rightarrow> request \<Rightarrow> 'w sys \<Rightarrow> (js_error + response) \<times> 'w sys" where
  "handleGetLogs_part000 P e req s =
     (let sessionId = req_searchParam req ''session'';
          limit = js_min (num_or (js_parseInt (req_searchParam req ''limit'')) (Exact 100))
                    (Exact 500);
          offset = num_or (js_parseInt (req_searchParam req ''offset'')) (Exact 0);
          query = SUPABASE_URL e
            @ ''/rest/v1/console_logs?select=*&order=created_at.desc&limit=''
            @ number_text P limit @ ''&offset='' @ number_text P offset;
          query2 = (case sessionId of
                      None \<Rightarrow> query
                    | Some sid \<Rightarrow>
                        if sid = [] then query
                        else query @ ''&session_id=eq.'' @ encodeURIComponent sid)
      in case do_fetch P
             \<lparr>out_url = query2, out_method = ''GET'',
              out_headers = backend_headers e (''Accept'', ''application/json''),
              out_body = None\<rparr> s of
           (FetchFailed m, s') \<Rightarrow> (Inl (PlatformError m), s')
         | (Received r, s') \<Rightarrow>
             if \<not> ok r
             then (Inl (Error (''Supabase error: '' @ num_to_string (int (b_status r))
                     @ '' '' @ b_text r)), s')
             else (case b_json r of
                     Inl m \<Rightarrow> (Inl (PlatformError m), s')
                   | Inr logs \<Rightarrow> (Inr (jsonResponse_part000 logs 200), s')))"

definition handlePostLog_part000 ::
  "'w platform \<Rightarrow> env \<Rightarrow> request \<Rightarrow> 'w sys \<Rightarrow> (js_error + response) \<times> 'w sys" where
  "handlePostLog_part000 P e req s =
     (case req_json req of
        Inl m \<Rightarrow> (Inl (PlatformError m), s)
      | Inr body \<Rightarrow>
     (case get_prop body ''level'' of
        Inl err \<Rightarrow> (Inl err, s)
      | Inr level \<Rightarrow>
     if \<not> truthy level
     then (Inr (jsonResponse_part000
             (Obj [(''error'', Str ''Missing required fields: level, message'')]) 400), s)
     else
     (case get_prop body ''message'' of
        Inl err \<Rightarrow> (Inl err, s)
      | Inr msg \<Rightarrow>
     if \<not> truthy msg
     then (Inr (jsonResponse_part000
             (Obj [(''error'', Str ''Missing required fields: level, message'')]) 400), s)
     else
     (case build_payload P body (req_header req) (world s) of
        Inl err \<Rightarrow> (Inl err, s)
      | Inr payload \<Rightarrow>
     (case do_fetch P
         \<lparr>out_url = SUPABASE_URL e @ ''/rest/v1/console_logs'', out_method = ''POST'',
          out_headers = backend_headers e (''Content-Type'', ''application/json'')
            @ [(''Prefer'', ''return=representation'')],
          out_body = Some payload\<rparr> s of
        (FetchFailed m, s') \<Rightarrow> (Inl (PlatformError m), s')
      | (Received r, s') \<Rightarrow>
          if \<not> ok r
          then (Inl (Error (''Supabase insert error: '' @ num_to_string (int (b_status r))
                  @ '' '' @ b_text r)), s')
          else (case b_json r of
                  Inl m \<Rightarrow> (Inl (PlatformError m), s')
                | Inr result \<Rightarrow>
                    (case index0 result of
                       Inl err \<Rightarrow> (Inl err, s')
                     | Inr first \<Rightarrow>
                         (Inr (jsonResponse_part000
                            (Obj [(''success'', Bool True), (''data'', first)]) 201), s'))))))))"

definition handlePostBatch_part000 ::
  "'w platform \<Rightarrow> env \<Rightarrow> request \<Rightarrow> 'w sys \<Rightarrow> (js_error + response) \<times> 'w sys" where
  "handlePostBatch_part000 P e req s =
     (case req_json req of
        Inl m \<Rightarrow> (Inl (PlatformError m), s)
      | Inr body \<Rightarrow>
     (case get_prop body ''logs'' of
        Inl err \<Rightarrow> (Inl err, s)
      | Inr logsv \<Rightarrow>
     if \<not> truthy logsv
     then (Inr (jsonResponse_part000
             (Obj [(''error'', Str ''Missing or invalid logs array'')]) 400), s)
     else if \<not> isArray logsv
     then (Inr (jsonResponse_part000
             (Obj [(''error'', Str ''Missing or invalid logs array'')]) 400), s)
     else if length (elements logsv) = 0
     then (Inr (jsonResponse_part000
             (Obj [(''error'', Str ''Missing or invalid logs array'')]) 400), s)
     else
       (let logs = take 100 (elements logsv) in
        case allSettled (map (\<lambda>entry. insertSingleLog P e entry (req_header req)) logs) s of
          (results, s') \<Rightarrow>
            (let successful = length (filter fulfilled results);
                 failed = length (filter rejected results)
             in (Inr (jsonResponse_part000
                   (Obj [(''success'', Bool True),
                         (''total'', count_val (length logs)),
                         (''saved'', count_val successful),
                         (''failed'', count_val failed)]) 201), s')))))"

definition catch500_part000 ::
  "'w platform \<Rightarrow> (js_error + response) \<times> 'w sys \<Rightarrow> response \<times> 'w sys" where
  "catch500_part000 P r =
     (case r of
        (Inr resp, s) \<Rightarrow> (resp, s)
      | (Inl err, s) \<Rightarrow>
          (jsonResponse_part000 (Obj [(''error'', Str (message P err))]) 500, s))"

text \<open>\<^verbatim>\<open>new Response(null, { headers: CORS_HEADERS })\<close> has the default status 200.\<close>

definition worker_fetch_part000 ::
  "'w platform \<Rightarrow> env \<Rightarrow> request \<Rightarrow> 'w sys \<Rightarrow> response \<times> 'w sys" where
  "worker_fetch_part000 P e req s =
     (if req_method req = ''OPTIONS''
      then (\<lparr>resp_status = 200, resp_headers = CORS_HEADERS_part000, resp_body = NoBody\<rparr>, s)
      else catch500_part000 P
        (if req_method req = ''GET'' \<and> req_pathname req = ''/logs''
         then handleGetLogs_part000 P e req s
         else if req_method req = ''POST'' \<and> req_pathname req = ''/logs''
         then handlePostLog_part000 P e req s
         else if req_method req = ''POST'' \<and> req_pathname req = ''/logs/batch''
         then handlePostBatch_part000 P e req s
         else if req_method req = ''GET'' \<and> req_pathname req = ''/health''
         then (Inr (jsonResponse_part000
                 (Obj [(''status'', Str ''ok''),
                       (''timestamp'', Str (toISOString P (date_now P (world s))))]) 200), s)
         else (Inr \<lparr>resp_status = 404, resp_headers = CORS_HEADERS_part000,
                    resp_body = TextBody ''Not Found''\<rparr>, s)))"

subsection \<open>Auxiliary definitions for the statements\<close>

text \<open>An entry whose properties cannot be read: \<^verbatim>\<open>null\<close> (and \<^verbatim>\<open>undefined\<close>,
  which JSON never holds).\<close>

fun nullish :: "jsval \<Rightarrow> bool" where
  "nullish Undefined = True"
| "nullish Null = True"
| "nullish v = False"

text \<open>The headers of a JSON response, and the test that a handler, when it returns a
  response, returns one with the headers \<open>hs\<close>.\<close>

definition json_headers :: "(string \<times> string) list" where
  "json_headers = (''Content-Type'', ''application/json'') # CORS_HEADERS"

definition json_headers_part000 :: "(string \<times> string) list" where
  "json_headers_part000 = (''Content-Type'', ''application/json'') # CORS_HEADERS_part000"

fun sent_with :: "(string \<times> string) list \<Rightarrow> js_error + response \<Rightarrow> bool" where
  "sent_with hs (Inl err) = True"
| "sent_with hs (Inr r) = (resp_headers r = hs)"

text \<open>The property \<open>p\<close> of the payload of an outbound call.\<close>

definition payload_prop :: "outreq \<Rightarrow> string \<Rightarrow> jsval option" where
  "payload_prop rq p = (case out_body rq of Some (Obj kvs) \<Rightarrow> map_of kvs p | _ \<Rightarrow> None)"

text \<open>A logged call whose payload carries, as \<^verbatim>\<open>expires_at\<close>, the time of the world the
  call was made in plus thirty days.\<close>

definition stamped :: "'w platform \<Rightarrow> 'w \<times> outreq \<Rightarrow> bool" where
  "stamped P c =
     (payload_prop (snd c) ''expires_at''
        = Some (Str (toISOString P (date_now P (fst c) + thirty_days))))"

text \<open>The entry \<open>x\<close> with the property \<open>p\<close> set to \<open>v\<close> by the client; only an object
  holds properties.\<close>

fun with_prop :: "string \<Rightarrow> jsval \<Rightarrow> jsval \<Rightarrow> jsval" where
  "with_prop p v (Obj kvs) = Obj ((p, v) # kvs)"
| "with_prop p v x = x"

text \<open>The effective limit of \<^verbatim>\<open>GET /logs\<close> in the words of claim C10, from what
  \<^verbatim>\<open>parseInt\<close> makes of the \<^verbatim>\<open>limit\<close> parameter: 100 when it is absent or no
  integer (\<^verbatim>\<open>NaN\<close>) or zero; a negative value as it is; otherwise the value, at most
  500.\<close>

fun claimed_limit :: "jsnum \<Rightarrow> jsnum" where
  "claimed_limit NaN = Exact 100"
| "claimed_limit (Exact n) =
     (if n = 0 then Exact 100 else if n < 0 then Exact n else Exact (min n 500))"
| "claimed_limit (Rounded n) = (if n < 0 then Rounded n else Exact 500)"

text \<open>The start of the query of \<^verbatim>\<open>GET /logs\<close>, up to the value of the limit.\<close>

definition logs_query :: "env \<Rightarrow> string" where
  "logs_query e =
     SUPABASE_URL e @ ''/rest/v1/console_logs?select=*&order=created_at.desc&limit=''"

text \<open>A decimal digit.\<close>

definition is_dec :: "char \<Rightarrow> bool" where
  "is_dec c = (48 \<le> (of_char c :: nat) \<and> (of_char c :: nat) \<le> 57)"



subsection \<open>A concrete platform and requests\<close>

text \<open>For evaluating the worker: the world is the number of calls the backend has
  answered so far; the backend answers 201 to every other call and 500 with the text
  \<^verbatim>\<open>busy\<close> in between; the clock starts at 1700000000000 and advances by a
  millisecond with each call; a time is printed as its number of milliseconds; of the
  doubles beyond \<open>2 ^ 53\<close> the texts of two are as V8 prints them, and the others
  are not used.\<close>

definition example_platform :: "nat platform" where
  "example_platform =
     \<lparr>date_now = (\<lambda>w. 1700000000000 + int w),
      toISOString = num_to_string,
      fetch = (\<lambda>rq w. (Received \<lparr>b_status = (if even w then 201 else 500),
                 b_text = ''busy'', b_json = Inr (Arr [Obj [(''id'', Num 1)]])\<rparr>, Suc w)),
      null_access_message = (\<lambda>p. ''Cannot read properties of null (reading ''
                                   @ [CHR 0x27] @ p @ [CHR 0x27] @ '')''),
      rounded_text = (\<lambda>n. if n = - (10 ^ 21) then ''-1e+21''
                         else if n = 9007199254740993 then ''9007199254740992''
                         else ''Infinity'')\<rparr>"

definition example_env :: env where
  "example_env = \<lparr>SUPABASE_URL = ''https://db.example'', SUPABASE_ANON_KEY = ''key''\<rparr>"

text \<open>A \<^verbatim>\<open>POST\<close> request with a JSON body, a \<^verbatim>\<open>POST\<close> request whose body is
  not JSON (\<^verbatim>\<open>request.json()\<close> throws with the message \<open>txt\<close>), and a \<^verbatim>\<open>GET\<close>
  request with query parameters and no body; none has a \<^verbatim>\<open>User-Agent\<close> or
  \<^verbatim>\<open>Referer\<close> header.\<close>

definition example_post :: "string \<Rightarrow> jsval \<Rightarrow> request" where
  "example_post path body =
     \<lparr>req_method = ''POST'', req_pathname = path, req_searchParam = (\<lambda>k. None),
      req_header = (\<lambda>k. None), req_json = Inr body\<rparr>"

definition example_unparsed :: "string \<Rightarrow> string \<Rightarrow> request" where
  "example_unparsed path txt =
     \<lparr>req_method = ''POST'', req_pathname = path, req_searchParam = (\<lambda>k. None),
      req_header = (\<lambda>k. None), req_json = Inl txt\<rparr>"

definition example_get :: "string \<Rightarrow> (string \<Rightarrow> string option) \<Rightarrow> request" where
  "example_get path params =
     \<lparr>req_method = ''GET'', req_pathname = path, req_searchParam = params,
      req_header = (\<lambda>k. None), req_json = Inl ''Unexpected end of JSON input''\<rparr>"

text \<open>The state in which the example backend answers 201 to the next call, and the
  state in which it answers 500; no call has been logged.\<close>

definition start :: "nat sys" where
  "start = \<lparr>world = 0, calls = []\<rparr>"

definition busy :: "nat sys" where
  "busy = \<lparr>world = 1, calls = []\<rparr>"

text \<open>Three entries of a batch; the second is \<^verbatim>\<open>null\<close>.\<close>

definition example_entries :: "jsval list" where
  "example_entries =
     [Obj [(''level'', Str ''info''), (''message'', Str ''started'')],
      Null,
      Obj [(''level'', Str ''warn''), (''message'', Str ''slow'')]]"

section \<open>Properties\<close>

subsection \<open>Evaluation\<close>

text \<open>The equations that evaluate the platform, the handlers of each file and the
  examples on concrete inputs.\<close>

lemmas platform_simps = num_to_string_def digits.simps js_parseInt_def js_parseInt_string_def
  ascii_ws_def ws3_def digit_val_def to_number_def encodeURIComponent_def unreserved_def
  percent_def hex_digit_def ok_def do_fetch_def thirty_days_def js_or_def header_val_def
  count_val_def backend_headers_def

lemmas worker_simps = worker_fetch_def catch500_def handleGetLogs_def handlePostLog_def
  handlePostBatch_def insertSingleLog_def build_payload_def

lemmas part000_simps = worker_fetch_part000_def catch500_part000_def handleGetLogs_part000_def
  handlePostLog_part000_def handlePostBatch_part000_def insertSingleLog_def build_payload_def

lemmas example_simps = example_platform_def example_env_def example_post_def example_get_def
  example_unparsed_def
  start_def busy_def example_entries_def

subsection \<open>The batch fan-out\<close>

lemma fst_allSettled_Cons:
  "fst (allSettled (f # fs) s) = fst (f s) # fst (allSettled fs (snd (f s)))"
  by (simp split: prod.splits)

lemma snd_allSettled_Cons:
  "snd (allSettled (f # fs) s) = snd (allSettled fs (snd (f s)))"
  by (simp split: prod.splits)

lemma allSettled_length: "length (fst (allSettled fs s)) = length fs"
  by (induction fs arbitrary: s) (simp_all add: fst_allSettled_Cons del: allSettled.simps(2))

lemma settled_count: "length (filter fulfilled rs) + length (filter rejected rs) = length rs"
proof (induction rs)
  case Nil
  show ?case by simp
next
  case (Cons r rs)
  then show ?case by (cases r) simp_all
qed

lemma build_payload_nullish: "nullish x \<Longrightarrow> \<exists>err. build_payload P x hdr w = Inl err"
  by (cases x) (simp_all add: build_payload_def)

lemma build_payload_value: "\<not> nullish x \<Longrightarrow> \<exists>p. build_payload P x hdr w = Inr p"
  by (cases x) (simp_all add: build_payload_def)

lemma insertSingleLog_calls:
  "length (calls (snd (insertSingleLog P e x hdr s))) = length (calls s) + (if nullish x then 0 else 1)"
proof (cases "nullish x")
  case True
  then obtain err where "build_payload P x hdr (world s) = Inl err"
    using build_payload_nullish [where P = P and hdr = hdr and w = "world s"] by blast
  with True show ?thesis by (simp add: insertSingleLog_def)
next
  case False
  then obtain p where "build_payload P x hdr (world s) = Inr p"
    using build_payload_value [where P = P and hdr = hdr and w = "world s"] by blast
  with False show ?thesis
    by (simp add: insertSingleLog_def do_fetch_def split: prod.splits fetch_result.splits)
qed

lemma allSettled_calls:
  "length (calls (snd (allSettled (map (\<lambda>x. insertSingleLog P e x hdr) xs) s)))
     = length (calls s) + length (filter (\<lambda>x. \<not> nullish x) xs)"
proof (induction xs arbitrary: s)
  case Nil
  show ?case by simp
next
  case (Cons x xs)
  show ?case
    using Cons [of "snd (insertSingleLog P e x hdr s)"] insertSingleLog_calls [of P e x hdr s]
    by (simp add: snd_allSettled_Cons del: allSettled.simps(2))
qed

lemma handlePostBatch_settled:
  assumes "req_json req = Inr body" and "get_prop body ''logs'' = Inr (Arr xs)"
  shows "handlePostBatch P e req s =
     (Inr (jsonResponse
        (Obj [(''success'', Bool True),
              (''total'', count_val (min (length xs) 100)),
              (''saved'', count_val (length (filter fulfilled (fst
                 (allSettled (map (\<lambda>entry. insertSingleLog P e entry (req_header req)) (take 100 xs)) s))))),
              (''failed'', count_val (length (filter rejected (fst
                 (allSettled (map (\<lambda>entry. insertSingleLog P e entry (req_header req)) (take 100 xs)) s)))))]) 201),
      snd (allSettled (map (\<lambda>entry. insertSingleLog P e entry (req_header req)) (take 100 xs)) s))"
  using assms by (simp add: handlePostBatch_def Let_def split: prod.splits)

lemma handlePostBatch_part000_settled:
  assumes "req_json req = Inr body" and "get_prop body ''logs'' = Inr (Arr xs)" and "xs \<noteq> []"
  shows "handlePostBatch_part000 P e req s =
     (Inr (jsonResponse_part000
        (Obj [(''success'', Bool True),
              (''total'', count_val (min (length xs) 100)),
              (''saved'', count_val (length (filter fulfilled (fst
                 (allSettled (map (\<lambda>entry. insertSingleLog P e entry (req_header req)) (take 100 xs)) s))))),
              (''failed'', count_val (length (filter rejected (fst
                 (allSettled (map (\<lambda>entry. insertSingleLog P e entry (req_header req)) (take 100 xs)) s)))))]) 201),
      snd (allSettled (map (\<lambda>entry. insertSingleLog P e entry (req_header req)) (take 100 xs)) s))"
  using assms by (simp add: handlePostBatch_part000_def Let_def split: prod.splits)

lemma route_batch:
  "req_method req = ''POST'' \<Longrightarrow> req_pathname req = ''/logs/batch'' \<Longrightarrow>
   worker_fetch P e req s = catch500 P (handlePostBatch P e req s)"
  by (simp add: worker_fetch_def)

lemma route_batch_part000:
  "req_method req = ''POST'' \<Longrightarrow> req_pathname req = ''/logs/batch'' \<Longrightarrow>
   worker_fetch_part000 P e req s = catch500_part000 P (handlePostBatch_part000 P e req s)"
  by (simp add: worker_fetch_part000_def)

text \<open>
  Claim C1, as the code has it. A request \<^verbatim>\<open>POST /logs/batch\<close> whose body has a
  \<^verbatim>\<open>logs\<close> property that is an array of \<open>N\<close> entries is answered, whatever the
  backend does, with status 201 and the body \<^verbatim>\<open>{success: true, total, saved, failed}\<close>,
  where \<open>total = min N 100\<close> and \<open>saved + failed = total\<close>; one call to the backend is
  made for each of the first \<open>min N 100\<close> entries that is not \<^verbatim>\<open>null\<close>; and the
  entries past the first 100 change nothing: the request cut to its first 100 entries
  gives the same response, the same world and the same calls. In
  \<^verbatim>\<open>src/worker.js\<close> this holds for every \<open>N\<close>, in \<^verbatim>\<open>src/unnamed/part_000\<close>
  for every \<open>N \<ge> 1\<close>.
\<close>

theorem batch_write_counts:
  assumes m: "req_method req = ''POST''" and p: "req_pathname req = ''/logs/batch''"
    and j: "req_json req = Inr body" and l: "get_prop body ''logs'' = Inr (Arr xs)"
  shows
   "(\<exists>saved failed.
       fst (worker_fetch P e req s) =
         jsonResponse (Obj [(''success'', Bool True),
                            (''total'', count_val (min (length xs) 100)),
                            (''saved'', count_val saved),
                            (''failed'', count_val failed)]) 201
       \<and> saved + failed = min (length xs) 100)
    \<and> length (calls (snd (worker_fetch P e req s)))
         = length (calls s) + length (filter (\<lambda>x. \<not> nullish x) (take 100 xs))
    \<and> worker_fetch P e (req\<lparr>req_json := Inr (Obj [(''logs'', Arr (take 100 xs))])\<rparr>) s
         = worker_fetch P e req s
    \<and> (xs \<noteq> [] \<longrightarrow>
        (\<exists>saved failed.
           fst (worker_fetch_part000 P e req s) =
             jsonResponse_part000 (Obj [(''success'', Bool True),
                                (''total'', count_val (min (length xs) 100)),
                                (''saved'', count_val saved),
                                (''failed'', count_val failed)]) 201
           \<and> saved + failed = min (length xs) 100)
        \<and> length (calls (snd (worker_fetch_part000 P e req s)))
             = length (calls s) + length (filter (\<lambda>x. \<not> nullish x) (take 100 xs))
        \<and> worker_fetch_part000 P e (req\<lparr>req_json := Inr (Obj [(''logs'', Arr (take 100 xs))])\<rparr>) s
             = worker_fetch_part000 P e req s)"
proof -
  let ?rs = "allSettled (map (\<lambda>entry. insertSingleLog P e entry (req_header req)) (take 100 xs)) s"
  let ?req' = "req\<lparr>req_json := Inr (Obj [(''logs'', Arr (take 100 xs))])\<rparr>"
  have n: "length (fst ?rs) = min (length xs) 100"
    by (simp add: allSettled_length)
  have c: "length (filter fulfilled (fst ?rs)) + length (filter rejected (fst ?rs)) = min (length xs) 100"
    using settled_count [of "fst ?rs"] n by simp
  have k: "length (calls (snd ?rs)) = length (calls s) + length (filter (\<lambda>x. \<not> nullish x) (take 100 xs))"
    by (rule allSettled_calls)
  have j': "req_json ?req' = Inr (Obj [(''logs'', Arr (take 100 xs))])" by simp
  have l': "get_prop (Obj [(''logs'', Arr (take 100 xs))]) ''logs'' = Inr (Arr (take 100 xs))" by simp
  have w: "worker_fetch P e req s = catch500 P (handlePostBatch P e req s)"
    using m p by (rule route_batch)
  have w': "worker_fetch P e ?req' s = catch500 P (handlePostBatch P e ?req' s)"
    using m p by (simp add: route_batch)
  have a1: "\<exists>saved failed.
       fst (worker_fetch P e req s) =
         jsonResponse (Obj [(''success'', Bool True),
                            (''total'', count_val (min (length xs) 100)),
                            (''saved'', count_val saved),
                            (''failed'', count_val failed)]) 201
       \<and> saved + failed = min (length xs) 100"
    using c by (auto simp: w handlePostBatch_settled [OF j l] catch500_def)
  have a2: "length (calls (snd (worker_fetch P e req s)))
         = length (calls s) + length (filter (\<lambda>x. \<not> nullish x) (take 100 xs))"
    using k by (simp add: w handlePostBatch_settled [OF j l] catch500_def)
  have a3: "worker_fetch P e ?req' s = worker_fetch P e req s"
    by (simp add: w w' handlePostBatch_settled [OF j l] handlePostBatch_settled [OF j' l'])
  have b: "xs \<noteq> [] \<longrightarrow>
        (\<exists>saved failed.
           fst (worker_fetch_part000 P e req s) =
             jsonResponse_part000 (Obj [(''success'', Bool True),
                                (''total'', count_val (min (length xs) 100)),
                                (''saved'', count_val saved),
                                (''failed'', count_val failed)]) 201
           \<and> saved + failed = min (length xs) 100)
        \<and> length (calls (snd (worker_fetch_part000 P e req s)))
             = length (calls s) + length (filter (\<lambda>x. \<not> nullish x) (take 100 xs))
        \<and> worker_fetch_part000 P e ?req' s = worker_fetch_part000 P e req s"
  proof
    assume ne: "xs \<noteq> []"
    have ne': "take 100 xs \<noteq> []" using ne by (cases xs) simp_all
    have v: "worker_fetch_part000 P e req s = catch500_part000 P (handlePostBatch_part000 P e req s)"
      using m p by (rule route_batch_part000)
    have v': "worker_fetch_part000 P e ?req' s = catch500_part000 P (handlePostBatch_part000 P e ?req' s)"
      using m p by (simp add: route_batch_part000)
    have b1: "\<exists>saved failed.
           fst (worker_fetch_part000 P e req s) =
             jsonResponse_part000 (Obj [(''success'', Bool True),
                                (''total'', count_val (min (length xs) 100)),
                                (''saved'', count_val saved),
                                (''failed'', count_val failed)]) 201
           \<and> saved + failed = min (length xs) 100"
      using c by (auto simp: v handlePostBatch_part000_settled [OF j l ne] catch500_part000_def)
    have b2: "length (calls (snd (worker_fetch_part000 P e req s)))
             = length (calls s) + length (filter (\<lambda>x. \<not> nullish x) (take 100 xs))"
      using k by (simp add: v handlePostBatch_part000_settled [OF j l ne] catch500_part000_def)
    have b3: "worker_fetch_part000 P e ?req' s = worker_fetch_part000 P e req s"
      by (simp add: v v' handlePostBatch_part000_settled [OF j l ne]
            handlePostBatch_part000_settled [OF j' l' ne'])
    from b1 b2 b3 show "(\<exists>saved failed.
           fst (worker_fetch_part000 P e req s) =
             jsonResponse_part000 (Obj [(''success'', Bool True),
                                (''total'', count_val (min (length xs) 100)),
                                (''saved'', count_val saved),
                                (''failed'', count_val failed)]) 201
           \<and> saved + failed = min (length xs) 100)
        \<and> length (calls (snd (worker_fetch_part000 P e req s)))
             = length (calls s) + length (filter (\<lambda>x. \<not> nullish x) (take 100 xs))
        \<and> worker_fetch_part000 P e ?req' s = worker_fetch_part000 P e req s"
      by blast
  qed
  from a1 a2 a3 b show ?thesis by blast
qed

theorem batch_write_counts_witness:
  "(\<exists>saved failed.
       fst (worker_fetch example_platform example_env
           (example_post ''/logs/batch'' (Obj [(''logs'', Arr example_entries)])) start) =
         jsonResponse (Obj [(''success'', Bool True),
                            (''total'', count_val 3),
                            (''saved'', count_val saved),
                            (''failed'', count_val failed)]) 201
       \<and> saved + failed = 3)
    \<and> length (calls (snd (worker_fetch example_platform example_env
           (example_post ''/logs/batch'' (Obj [(''logs'', Arr example_entries)])) start))) = 2
    \<and> (\<exists>saved failed.
       fst (worker_fetch_part000 example_platform example_env
           (example_post ''/logs/batch'' (Obj [(''logs'', Arr example_entries)])) start) =
         jsonResponse_part000 (Obj [(''success'', Bool True),
                            (''total'', count_val 3),
                            (''saved'', count_val saved),
                            (''failed'', count_val failed)]) 201
       \<and> saved + failed = 3)
    \<and> length (calls (snd (worker_fetch_part000 example_platform example_env
           (example_post ''/logs/batch'' (Obj [(''logs'', Arr example_entries)])) start))) = 2
    \<and> (\<exists>saved failed.
       fst (worker_fetch example_platform example_env
           (example_post ''/logs/batch'' (Obj [(''logs'', Arr (replicate 101 Null))])) start) =
         jsonResponse (Obj [(''success'', Bool True),
                            (''total'', count_val 100),
                            (''saved'', count_val saved),
                            (''failed'', count_val failed)]) 201
       \<and> saved + failed = 100)
    \<and> worker_fetch_part000 example_platform example_env
           (example_post ''/logs/batch'' (Obj [(''logs'', Arr (replicate 100 Null))])) start
        = worker_fetch_part000 example_platform example_env
           (example_post ''/logs/batch'' (Obj [(''logs'', Arr (replicate 101 Null))])) start"
proof -
  let ?req = "example_post ''/logs/batch'' (Obj [(''logs'', Arr example_entries)])"
  have m: "req_method ?req = ''POST''" by (simp add: example_post_def)
  have p: "req_pathname ?req = ''/logs/batch''" by (simp add: example_post_def)
  have j: "req_json ?req = Inr (Obj [(''logs'', Arr example_entries)])"
    by (simp add: example_post_def)
  have l: "get_prop (Obj [(''logs'', Arr example_entries)]) ''logs'' = Inr (Arr example_entries)"
    by simp
  have n: "min (length example_entries) 100 = 3" by (simp add: example_entries_def)
  have k: "length (filter (\<lambda>x. \<not> nullish x) (take 100 example_entries)) = 2"
    by (simp add: example_entries_def)
  have ne: "example_entries \<noteq> []" by (simp add: example_entries_def)
  have c: "length (calls start) = 0" by (simp add: start_def)
  let ?big = "example_post ''/logs/batch'' (Obj [(''logs'', Arr (replicate 101 Null))])"
  have m': "req_method ?big = ''POST''" by (simp add: example_post_def)
  have p': "req_pathname ?big = ''/logs/batch''" by (simp add: example_post_def)
  have j': "req_json ?big = Inr (Obj [(''logs'', Arr (replicate 101 Null))])"
    by (simp add: example_post_def)
  have l': "get_prop (Obj [(''logs'', Arr (replicate 101 Null))]) ''logs''
      = Inr (Arr (replicate 101 Null))"
    by simp
  have n': "min (length (replicate 101 Null :: jsval list)) 100 = 100" by simp
  have ne': "replicate 101 Null \<noteq> ([] :: jsval list)" by simp
  have cut: "?big\<lparr>req_json := Inr (Obj [(''logs'', Arr (take 100 (replicate 101 Null)))])\<rparr>
      = example_post ''/logs/batch'' (Obj [(''logs'', Arr (replicate 100 Null))])"
    by (simp add: example_post_def)
  have first: "(\<exists>saved failed.
       fst (worker_fetch example_platform example_env ?req start) =
         jsonResponse (Obj [(''success'', Bool True),
                            (''total'', count_val 3),
                            (''saved'', count_val saved),
                            (''failed'', count_val failed)]) 201
       \<and> saved + failed = 3)
    \<and> length (calls (snd (worker_fetch example_platform example_env ?req start))) = 2
    \<and> (\<exists>saved failed.
       fst (worker_fetch_part000 example_platform example_env ?req start) =
         jsonResponse_part000 (Obj [(''success'', Bool True),
                            (''total'', count_val 3),
                            (''saved'', count_val saved),
                            (''failed'', count_val failed)]) 201
       \<and> saved + failed = 3)
    \<and> length (calls (snd (worker_fetch_part000 example_platform example_env ?req start))) = 2"
    using batch_write_counts [OF m p j l, of example_platform example_env start] ne
    unfolding n k c by simp
  have second: "(\<exists>saved failed.
       fst (worker_fetch example_platform example_env ?big start) =
         jsonResponse (Obj [(''success'', Bool True),
                            (''total'', count_val 100),
                            (''saved'', count_val saved),
                            (''failed'', count_val failed)]) 201
       \<and> saved + failed = 100)
    \<and> worker_fetch_part000 example_platform example_env
           (example_post ''/logs/batch'' (Obj [(''logs'', Arr (replicate 100 Null))])) start
        = worker_fetch_part000 example_platform example_env ?big start"
    using batch_write_counts [OF m' p' j' l', of example_platform example_env start] ne'
    unfolding n' cut by blast
  from first second show ?thesis by blast
qed

text \<open>In \<^verbatim>\<open>src/unnamed/part_000\<close> an empty array is answered with status 400, not
  201.\<close>

theorem batch_empty_part000_counterexample:
  "fst (worker_fetch_part000 example_platform example_env
          (example_post ''/logs/batch'' (Obj [(''logs'', Arr [])])) start)
     = jsonResponse_part000 (Obj [(''error'', Str ''Missing or invalid logs array'')]) 400
   \<and> resp_status (fst (worker_fetch_part000 example_platform example_env
          (example_post ''/logs/batch'' (Obj [(''logs'', Arr [])])) start)) \<noteq> 201"
  by (simp add: worker_fetch_part000_def catch500_part000_def handlePostBatch_part000_def
      example_post_def jsonResponse_part000_def)

subsection \<open>Validation\<close>

lemma route_post:
  "req_method req = ''POST'' \<Longrightarrow> req_pathname req = ''/logs'' \<Longrightarrow>
   worker_fetch P e req s = catch500 P (handlePostLog P e req s)"
  by (simp add: worker_fetch_def)

lemma route_post_part000:
  "req_method req = ''POST'' \<Longrightarrow> req_pathname req = ''/logs'' \<Longrightarrow>
   worker_fetch_part000 P e req s = catch500_part000 P (handlePostLog_part000 P e req s)"
  by (simp add: worker_fetch_part000_def)

lemma nullish_get_prop: "nullish body \<Longrightarrow> get_prop body p = Inl (NullAccess p)"
  by (cases body) simp_all

text \<open>
  Claim C3, as the code has it. A request \<^verbatim>\<open>POST /logs/batch\<close> whose body is a
  JSON value other than \<^verbatim>\<open>null\<close> and whose \<^verbatim>\<open>logs\<close> property is absent or is
  not an array is answered with status 400, and the world and the log of outbound
  calls stay as they were: no call to the backend is made. In
  \<^verbatim>\<open>src/unnamed/part_000\<close> the same holds for an empty array; in
  \<^verbatim>\<open>src/worker.js\<close> an empty array is answered with status 201 and the counts
  0, 0, 0, again without a call. A body that is the JSON value \<^verbatim>\<open>null\<close>, or that is
  not JSON, makes the handler throw, and is answered with status 500 and the body
  \<^verbatim>\<open>{error: message}\<close>, again without a call.
\<close>

theorem batch_rejects_bad_logs:
  assumes m: "req_method req = ''POST''" and p: "req_pathname req = ''/logs/batch''"
  shows
   "(req_json req = Inr body \<and> get_prop body ''logs'' = Inr logsv \<and> \<not> isArray logsv \<longrightarrow>
       worker_fetch P e req s =
         (jsonResponse (Obj [(''error'', Str ''Invalid logs array'')]) 400, s))
    \<and> (req_json req = Inr body \<and> get_prop body ''logs'' = Inr (Arr []) \<longrightarrow>
       worker_fetch P e req s =
         (jsonResponse (Obj [(''success'', Bool True), (''total'', count_val 0),
                             (''saved'', count_val 0), (''failed'', count_val 0)]) 201, s))
    \<and> (req_json req = Inr body \<and> get_prop body ''logs'' = Inr logsv
         \<and> (\<not> isArray logsv \<or> logsv = Arr []) \<longrightarrow>
       worker_fetch_part000 P e req s =
         (jsonResponse_part000 (Obj [(''error'', Str ''Missing or invalid logs array'')]) 400, s))
    \<and> (req_json req = Inr body \<and> nullish body \<longrightarrow>
       worker_fetch P e req s =
         (jsonResponse (Obj [(''error'', Str (null_access_message P ''logs''))]) 500, s)
       \<and> worker_fetch_part000 P e req s =
         (jsonResponse_part000 (Obj [(''error'', Str (null_access_message P ''logs''))]) 500, s))
    \<and> (req_json req = Inl why \<longrightarrow>
       worker_fetch P e req s = (jsonResponse (Obj [(''error'', Str why)]) 500, s)
       \<and> worker_fetch_part000 P e req s =
         (jsonResponse_part000 (Obj [(''error'', Str why)]) 500, s))"
proof -
  have a: "req_json req = Inr body \<and> get_prop body ''logs'' = Inr logsv \<and> \<not> isArray logsv \<longrightarrow>
       worker_fetch P e req s =
         (jsonResponse (Obj [(''error'', Str ''Invalid logs array'')]) 400, s)"
    by (simp add: route_batch [OF m p] handlePostBatch_def catch500_def)
  have b: "req_json req = Inr body \<and> get_prop body ''logs'' = Inr (Arr []) \<longrightarrow>
       worker_fetch P e req s =
         (jsonResponse (Obj [(''success'', Bool True), (''total'', count_val 0),
                             (''saved'', count_val 0), (''failed'', count_val 0)]) 201, s)"
    by (simp add: route_batch [OF m p] handlePostBatch_def catch500_def)
  have c: "req_json req = Inr body \<and> get_prop body ''logs'' = Inr logsv
         \<and> (\<not> isArray logsv \<or> logsv = Arr []) \<longrightarrow>
       worker_fetch_part000 P e req s =
         (jsonResponse_part000 (Obj [(''error'', Str ''Missing or invalid logs array'')]) 400, s)"
    by (auto simp: route_batch_part000 [OF m p] handlePostBatch_part000_def
        catch500_part000_def)
  have d: "req_json req = Inr body \<and> nullish body \<longrightarrow>
       worker_fetch P e req s =
         (jsonResponse (Obj [(''error'', Str (null_access_message P ''logs''))]) 500, s)
       \<and> worker_fetch_part000 P e req s =
         (jsonResponse_part000 (Obj [(''error'', Str (null_access_message P ''logs''))]) 500, s)"
    by (simp add: route_batch [OF m p] route_batch_part000 [OF m p] handlePostBatch_def
        handlePostBatch_part000_def catch500_def catch500_part000_def nullish_get_prop)
  have f: "req_json req = Inl why \<longrightarrow>
       worker_fetch P e req s = (jsonResponse (Obj [(''error'', Str why)]) 500, s)
       \<and> worker_fetch_part000 P e req s =
         (jsonResponse_part000 (Obj [(''error'', Str why)]) 500, s)"
    by (simp add: route_batch [OF m p] route_batch_part000 [OF m p] handlePostBatch_def
        handlePostBatch_part000_def catch500_def catch500_part000_def)
  show ?thesis
    by (rule conjI [OF a conjI [OF b conjI [OF c conjI [OF d f]]]])
qed

theorem batch_rejects_bad_logs_witness:
  "worker_fetch example_platform example_env
       (example_post ''/logs/batch'' (Obj [(''entries'', Arr example_entries)])) start =
     (jsonResponse (Obj [(''error'', Str ''Invalid logs array'')]) 400, start)
   \<and> worker_fetch_part000 example_platform example_env
       (example_post ''/logs/batch'' (Obj [(''entries'', Arr example_entries)])) start =
     (jsonResponse_part000 (Obj [(''error'', Str ''Missing or invalid logs array'')]) 400, start)
   \<and> worker_fetch example_platform example_env
       (example_post ''/logs/batch'' (Obj [(''logs'', Arr [])])) start =
     (jsonResponse (Obj [(''success'', Bool True), (''total'', count_val 0),
                         (''saved'', count_val 0), (''failed'', count_val 0)]) 201, start)
   \<and> worker_fetch_part000 example_platform example_env
       (example_post ''/logs/batch'' (Obj [(''logs'', Arr [])])) start =
     (jsonResponse_part000 (Obj [(''error'', Str ''Missing or invalid logs array'')]) 400, start)
   \<and> worker_fetch_part000 example_platform example_env
       (example_post ''/logs/batch'' Null) start =
     (jsonResponse_part000
        (Obj [(''error'', Str (null_access_message example_platform ''logs''))]) 500, start)
   \<and> worker_fetch example_platform example_env
       (example_unparsed ''/logs/batch'' ''Unexpected token'') start =
     (jsonResponse (Obj [(''error'', Str ''Unexpected token'')]) 500, start)"
proof -
  let ?body = "Obj [(''entries'', Arr example_entries)]"
  let ?req = "example_post ''/logs/batch'' ?body"
  let ?body' = "Obj [(''logs'', Arr [])]"
  let ?req' = "example_post ''/logs/batch'' ?body'"
  let ?bad = "example_unparsed ''/logs/batch'' ''Unexpected token''"
  have m: "req_method (example_post ''/logs/batch'' b) = ''POST''" for b
    by (simp add: example_post_def)
  have p: "req_pathname (example_post ''/logs/batch'' b) = ''/logs/batch''" for b
    by (simp add: example_post_def)
  have j: "req_json (example_post ''/logs/batch'' b) = Inr b" for b
    by (simp add: example_post_def)
  have mb: "req_method ?bad = ''POST''" and pb: "req_pathname ?bad = ''/logs/batch''"
    and jb: "req_json ?bad = Inl ''Unexpected token''"
    by (simp_all add: example_unparsed_def)
  have l: "get_prop ?body ''logs'' = Inr Undefined" by simp
  have n: "\<not> isArray Undefined" by simp
  have l': "get_prop ?body' ''logs'' = Inr (Arr [])" by simp
  note t1 = batch_rejects_bad_logs [OF m p, where P = example_platform and e = example_env
      and s = start]
  have absent: "worker_fetch example_platform example_env ?req start =
       (jsonResponse (Obj [(''error'', Str ''Invalid logs array'')]) 400, start)"
    using t1 [of ?body ?body Undefined, THEN conjunct1] j l n by simp
  have absent': "worker_fetch_part000 example_platform example_env ?req start =
       (jsonResponse_part000 (Obj [(''error'', Str ''Missing or invalid logs array'')]) 400, start)"
    using t1 [of ?body ?body Undefined, THEN conjunct2, THEN conjunct2, THEN conjunct1] j l n
    by simp
  have empty: "worker_fetch example_platform example_env ?req' start =
       (jsonResponse (Obj [(''success'', Bool True), (''total'', count_val 0),
                           (''saved'', count_val 0), (''failed'', count_val 0)]) 201, start)"
    using t1 [of ?body' ?body' "Arr []", THEN conjunct2, THEN conjunct1] j l' by simp
  have empty': "worker_fetch_part000 example_platform example_env ?req' start =
       (jsonResponse_part000 (Obj [(''error'', Str ''Missing or invalid logs array'')]) 400, start)"
    using t1 [of ?body' ?body' "Arr []", THEN conjunct2, THEN conjunct2, THEN conjunct1] j l'
    by simp
  have null: "worker_fetch_part000 example_platform example_env
       (example_post ''/logs/batch'' Null) start =
     (jsonResponse_part000
        (Obj [(''error'', Str (null_access_message example_platform ''logs''))]) 500, start)"
    using t1 [of Null Null Undefined, THEN conjunct2, THEN conjunct2, THEN conjunct2,
        THEN conjunct1] j
    by simp
  have bad: "worker_fetch example_platform example_env ?bad start =
     (jsonResponse (Obj [(''error'', Str ''Unexpected token'')]) 500, start)"
    using batch_rejects_bad_logs [OF mb pb, where P = example_platform and e = example_env
      and s = start and why = "''Unexpected token''", THEN conjunct2, THEN conjunct2,
      THEN conjunct2, THEN conjunct2] jb
    by simp
  show ?thesis
    by (rule conjI [OF absent conjI [OF absent' conjI [OF empty conjI [OF empty'
        conjI [OF null bad]]]]])
qed

text \<open>In \<^verbatim>\<open>src/worker.js\<close> an empty \<^verbatim>\<open>logs\<close> array is answered with status 201,
  not 400; and in both files the body \<^verbatim>\<open>null\<close>, whose \<^verbatim>\<open>logs\<close> is absent, and a
  body that is not JSON are answered with status 500, not 400.\<close>

theorem batch_empty_counterexample:
  "resp_status (fst (worker_fetch example_platform example_env
       (example_post ''/logs/batch'' (Obj [(''logs'', Arr [])])) start)) = 201
   \<and> worker_fetch example_platform example_env (example_post ''/logs/batch'' Null) start =
     (jsonResponse
        (Obj [(''error'', Str (''Cannot read properties of null (reading '' @ [CHR 0x27] @ ''logs''
               @ [CHR 0x27] @ '')''))]) 500, start)
   \<and> worker_fetch_part000 example_platform example_env (example_post ''/logs/batch'' Null) start =
     (jsonResponse_part000
        (Obj [(''error'', Str (''Cannot read properties of null (reading '' @ [CHR 0x27] @ ''logs''
               @ [CHR 0x27] @ '')''))]) 500, start)
   \<and> resp_status (fst (worker_fetch example_platform example_env
       (example_unparsed ''/logs/batch'' ''Unexpected token'') start)) = 500
   \<and> resp_status (fst (worker_fetch_part000 example_platform example_env
       (example_unparsed ''/logs/batch'' ''Unexpected token'') start)) = 500"
  by (simp add: worker_fetch_def catch500_def handlePostBatch_def worker_fetch_part000_def
      catch500_part000_def handlePostBatch_part000_def example_post_def example_unparsed_def
      example_platform_def jsonResponse_def jsonResponse_part000_def)

text \<open>
  Claim C4, as the code has it. A request \<^verbatim>\<open>POST /logs\<close> whose body is a JSON
  value other than \<^verbatim>\<open>null\<close> and lacks \<^verbatim>\<open>level\<close> or \<^verbatim>\<open>message\<close> (or holds a
  falsy value there: \<^verbatim>\<open>null\<close>, \<^verbatim>\<open>false\<close>, \<^verbatim>\<open>0\<close>, the empty string) is answered
  with status 400 and the body \<^verbatim>\<open>{error: "Missing required fields..."}\<close>, and the
  world and the log of outbound calls stay as they were: no call to the backend is
  made. A body that is the JSON value \<^verbatim>\<open>null\<close>, or that is not JSON, makes the
  handler throw, and is answered with status 500 and the body \<^verbatim>\<open>{error: message}\<close>,
  again without a call.
\<close>

theorem single_write_requires_fields:
  assumes m: "req_method req = ''POST''" and p: "req_pathname req = ''/logs''"
  shows
   "(req_json req = Inr body \<and> get_prop body ''level'' = Inr level
       \<and> get_prop body ''message'' = Inr msg \<and> (\<not> truthy level \<or> \<not> truthy msg) \<longrightarrow>
     worker_fetch P e req s =
       (jsonResponse (Obj [(''error'', Str ''Missing required fields'')]) 400, s)
     \<and> worker_fetch_part000 P e req s =
       (jsonResponse_part000
          (Obj [(''error'', Str (''Missing required fields'' @ '': level, message''))]) 400, s))
    \<and> (req_json req = Inr body \<and> nullish body \<longrightarrow>
     worker_fetch P e req s =
       (jsonResponse (Obj [(''error'', Str (null_access_message P ''level''))]) 500, s)
     \<and> worker_fetch_part000 P e req s =
       (jsonResponse_part000 (Obj [(''error'', Str (null_access_message P ''level''))]) 500, s))
    \<and> (req_json req = Inl why \<longrightarrow>
     worker_fetch P e req s = (jsonResponse (Obj [(''error'', Str why)]) 500, s)
     \<and> worker_fetch_part000 P e req s =
       (jsonResponse_part000 (Obj [(''error'', Str why)]) 500, s))"
proof -
  have a: "req_json req = Inr body \<and> get_prop body ''level'' = Inr level
       \<and> get_prop body ''message'' = Inr msg \<and> (\<not> truthy level \<or> \<not> truthy msg) \<longrightarrow>
     worker_fetch P e req s =
       (jsonResponse (Obj [(''error'', Str ''Missing required fields'')]) 400, s)
     \<and> worker_fetch_part000 P e req s =
       (jsonResponse_part000
          (Obj [(''error'', Str (''Missing required fields'' @ '': level, message''))]) 400, s)"
  proof
    assume h: "req_json req = Inr body \<and> get_prop body ''level'' = Inr level
       \<and> get_prop body ''message'' = Inr msg \<and> (\<not> truthy level \<or> \<not> truthy msg)"
    have x: "handlePostLog P e req s =
        (Inr (jsonResponse (Obj [(''error'', Str ''Missing required fields'')]) 400), s)"
      using h by (auto simp: handlePostLog_def)
    have y: "handlePostLog_part000 P e req s =
        (Inr (jsonResponse_part000
           (Obj [(''error'', Str ''Missing required fields: level, message'')]) 400), s)"
      using h by (auto simp: handlePostLog_part000_def)
    show "worker_fetch P e req s =
       (jsonResponse (Obj [(''error'', Str ''Missing required fields'')]) 400, s)
     \<and> worker_fetch_part000 P e req s =
       (jsonResponse_part000
          (Obj [(''error'', Str (''Missing required fields'' @ '': level, message''))]) 400, s)"
      by (simp add: route_post [OF m p] route_post_part000 [OF m p] x y catch500_def
          catch500_part000_def)
  qed
  have b: "req_json req = Inr body \<and> nullish body \<longrightarrow>
     worker_fetch P e req s =
       (jsonResponse (Obj [(''error'', Str (null_access_message P ''level''))]) 500, s)
     \<and> worker_fetch_part000 P e req s =
       (jsonResponse_part000 (Obj [(''error'', Str (null_access_message P ''level''))]) 500, s)"
    by (simp add: route_post [OF m p] route_post_part000 [OF m p] handlePostLog_def
        handlePostLog_part000_def catch500_def catch500_part000_def nullish_get_prop)
  have c: "req_json req = Inl why \<longrightarrow>
     worker_fetch P e req s = (jsonResponse (Obj [(''error'', Str why)]) 500, s)
     \<and> worker_fetch_part000 P e req s =
       (jsonResponse_part000 (Obj [(''error'', Str why)]) 500, s)"
    by (simp add: route_post [OF m p] route_post_part000 [OF m p] handlePostLog_def
        handlePostLog_part000_def catch500_def catch500_part000_def)
  show ?thesis
    by (rule conjI [OF a conjI [OF b c]])
qed

theorem single_write_requires_fields_witness:
  "worker_fetch example_platform example_env
       (example_post ''/logs'' (Obj [(''message'', Str ''no level'')])) start =
      (jsonResponse (Obj [(''error'', Str ''Missing required fields'')]) 400, start)
    \<and> worker_fetch_part000 example_platform example_env
       (example_post ''/logs'' (Obj [(''message'', Str ''no level'')])) start =
      (jsonResponse_part000
         (Obj [(''error'', Str (''Missing required fields'' @ '': level, message''))]) 400, start)
    \<and> worker_fetch example_platform example_env (example_post ''/logs'' Null) start =
      (jsonResponse
         (Obj [(''error'', Str (null_access_message example_platform ''level''))]) 500, start)
    \<and> worker_fetch_part000 example_platform example_env
       (example_unparsed ''/logs'' ''Unexpected token'') start =
      (jsonResponse_part000 (Obj [(''error'', Str ''Unexpected token'')]) 500, start)"
proof -
  let ?body = "Obj [(''message'', Str ''no level'')]"
  let ?req = "example_post ''/logs'' ?body"
  let ?bad = "example_unparsed ''/logs'' ''Unexpected token''"
  have m: "req_method (example_post ''/logs'' b) = ''POST''" for b
    by (simp add: example_post_def)
  have p: "req_pathname (example_post ''/logs'' b) = ''/logs''" for b
    by (simp add: example_post_def)
  have j: "req_json (example_post ''/logs'' b) = Inr b" for b
    by (simp add: example_post_def)
  have mb: "req_method ?bad = ''POST''" and pb: "req_pathname ?bad = ''/logs''"
    and jb: "req_json ?bad = Inl ''Unexpected token''"
    by (simp_all add: example_unparsed_def)
  have lv: "get_prop ?body ''level'' = Inr Undefined" by simp
  have mv: "get_prop ?body ''message'' = Inr (Str ''no level'')" by simp
  note t1 = single_write_requires_fields [OF m p, where P = example_platform
      and e = example_env and s = start]
  have missing: "worker_fetch example_platform example_env ?req start =
      (jsonResponse (Obj [(''error'', Str ''Missing required fields'')]) 400, start)
    \<and> worker_fetch_part000 example_platform example_env ?req start =
      (jsonResponse_part000
         (Obj [(''error'', Str (''Missing required fields'' @ '': level, message''))]) 400, start)"
    using t1 [of ?body ?body Undefined "Str ''no level''", THEN conjunct1] j lv mv by simp
  have null: "worker_fetch example_platform example_env (example_post ''/logs'' Null) start =
      (jsonResponse
         (Obj [(''error'', Str (null_access_message example_platform ''level''))]) 500, start)"
    using t1 [of Null Null, THEN conjunct2, THEN conjunct1] j by simp
  have bad: "worker_fetch_part000 example_platform example_env ?bad start =
      (jsonResponse_part000 (Obj [(''error'', Str ''Unexpected token'')]) 500, start)"
    using single_write_requires_fields [OF mb pb, where P = example_platform
      and e = example_env and s = start and why = "''Unexpected token''",
      THEN conjunct2, THEN conjunct2] jb
    by simp
  from missing null bad show ?thesis by simp
qed

text \<open>The body \<^verbatim>\<open>null\<close> has neither \<^verbatim>\<open>level\<close> nor \<^verbatim>\<open>message\<close>, and a body that
  is not JSON has none either; both are answered with status 500, not 400.\<close>

theorem single_write_null_body_counterexample:
  "worker_fetch example_platform example_env (example_post ''/logs'' Null) start =
     (jsonResponse
        (Obj [(''error'', Str (''Cannot read properties of null (reading '' @ [CHR 0x27] @ ''level''
               @ [CHR 0x27] @ '')''))]) 500, start)
   \<and> worker_fetch_part000 example_platform example_env (example_post ''/logs'' Null) start =
     (jsonResponse_part000
        (Obj [(''error'', Str (''Cannot read properties of null (reading '' @ [CHR 0x27] @ ''level''
               @ [CHR 0x27] @ '')''))]) 500, start)
   \<and> resp_status (fst (worker_fetch example_platform example_env
       (example_unparsed ''/logs'' ''Unexpected token'') start)) = 500
   \<and> resp_status (fst (worker_fetch_part000 example_platform example_env
       (example_unparsed ''/logs'' ''Unexpected token'') start)) = 500"
  by (simp add: worker_fetch_def catch500_def handlePostLog_def worker_fetch_part000_def
      catch500_part000_def handlePostLog_part000_def example_post_def example_unparsed_def
      example_platform_def jsonResponse_def jsonResponse_part000_def)

subsection \<open>Routing and cross-origin headers\<close>

text \<open>
  Claim C6, as the code has it. A request whose method is not \<^verbatim>\<open>OPTIONS\<close> is
  dispatched on its method and path. In \<^verbatim>\<open>src/unnamed/part_000\<close> the four pairs
  \<^verbatim>\<open>GET /health\<close>, \<^verbatim>\<open>GET /logs\<close>, \<^verbatim>\<open>POST /logs\<close>, \<^verbatim>\<open>POST /logs/batch\<close> go
  to their handlers and every other request is answered 404 with the text
  \<^verbatim>\<open>Not Found\<close> and the cross-origin headers. In \<^verbatim>\<open>src/worker.js\<close> the path
  \<^verbatim>\<open>/health\<close> is answered by the health check whatever the method; the other
  three pairs go to their handlers and every other request is answered 404 in the same
  way.
\<close>

theorem routing:
  assumes "req_method req \<noteq> ''OPTIONS''"
  shows
   "(req_method req = ''GET'' \<and> req_pathname req = ''/health'' \<longrightarrow>
       worker_fetch_part000 P e req s =
         (jsonResponse_part000 (Obj [(''status'', Str ''ok''),
            (''timestamp'', Str (toISOString P (date_now P (world s))))]) 200, s))
    \<and> (req_method req = ''GET'' \<and> req_pathname req = ''/logs'' \<longrightarrow>
       worker_fetch_part000 P e req s = catch500_part000 P (handleGetLogs_part000 P e req s))
    \<and> (req_method req = ''POST'' \<and> req_pathname req = ''/logs'' \<longrightarrow>
       worker_fetch_part000 P e req s = catch500_part000 P (handlePostLog_part000 P e req s))
    \<and> (req_method req = ''POST'' \<and> req_pathname req = ''/logs/batch'' \<longrightarrow>
       worker_fetch_part000 P e req s = catch500_part000 P (handlePostBatch_part000 P e req s))
    \<and> ((req_method req, req_pathname req) \<notin>
          {(''GET'', ''/health''), (''GET'', ''/logs''), (''POST'', ''/logs''),
           (''POST'', ''/logs/batch'')} \<longrightarrow>
       worker_fetch_part000 P e req s =
         (\<lparr>resp_status = 404, resp_headers = CORS_HEADERS_part000,
           resp_body = TextBody ''Not Found''\<rparr>, s))
    \<and> (req_pathname req = ''/health'' \<longrightarrow>
       worker_fetch P e req s =
         (jsonResponse (Obj [(''status'', Str ''ok''),
            (''timestamp'', Str (toISOString P (date_now P (world s))))]) 200, s))
    \<and> (req_method req = ''GET'' \<and> req_pathname req = ''/logs'' \<longrightarrow>
       worker_fetch P e req s = catch500 P (handleGetLogs P e req s))
    \<and> (req_method req = ''POST'' \<and> req_pathname req = ''/logs'' \<longrightarrow>
       worker_fetch P e req s = catch500 P (handlePostLog P e req s))
    \<and> (req_method req = ''POST'' \<and> req_pathname req = ''/logs/batch'' \<longrightarrow>
       worker_fetch P e req s = catch500 P (handlePostBatch P e req s))
    \<and> (req_pathname req \<noteq> ''/health'' \<and> (req_method req, req_pathname req) \<notin>
          {(''GET'', ''/logs''), (''POST'', ''/logs''), (''POST'', ''/logs/batch'')} \<longrightarrow>
       worker_fetch P e req s =
         (\<lparr>resp_status = 404, resp_headers = CORS_HEADERS,
           resp_body = TextBody ''Not Found''\<rparr>, s))"
  using assms by (simp add: worker_fetch_def worker_fetch_part000_def catch500_def catch500_part000_def)

theorem routing_witness:
  "worker_fetch_part000 example_platform example_env (example_post ''/health'' Null) start =
     (\<lparr>resp_status = 404, resp_headers = CORS_HEADERS_part000,
       resp_body = TextBody ''Not Found''\<rparr>, start)
   \<and> worker_fetch example_platform example_env (example_post ''/nowhere'' Null) start =
     (\<lparr>resp_status = 404, resp_headers = CORS_HEADERS,
       resp_body = TextBody ''Not Found''\<rparr>, start)
   \<and> worker_fetch example_platform example_env (example_get ''/health'' (\<lambda>k. None)) start =
     (jsonResponse (Obj [(''status'', Str ''ok''),
        (''timestamp'', Str ''1700000000000'')]) 200, start)
   \<and> worker_fetch_part000 example_platform example_env (example_get ''/health'' (\<lambda>k. None)) start =
     (jsonResponse_part000 (Obj [(''status'', Str ''ok''),
        (''timestamp'', Str ''1700000000000'')]) 200, start)
   \<and> worker_fetch example_platform example_env (example_get ''/logs'' (\<lambda>k. None)) start =
     catch500 example_platform
       (handleGetLogs example_platform example_env (example_get ''/logs'' (\<lambda>k. None)) start)
   \<and> worker_fetch_part000 example_platform example_env (example_get ''/logs'' (\<lambda>k. None)) start =
     catch500_part000 example_platform
       (handleGetLogs_part000 example_platform example_env (example_get ''/logs'' (\<lambda>k. None)) start)
   \<and> worker_fetch example_platform example_env (example_post ''/logs'' Null) start =
     catch500 example_platform
       (handlePostLog example_platform example_env (example_post ''/logs'' Null) start)
   \<and> worker_fetch_part000 example_platform example_env (example_post ''/logs'' Null) start =
     catch500_part000 example_platform
       (handlePostLog_part000 example_platform example_env (example_post ''/logs'' Null) start)
   \<and> worker_fetch example_platform example_env (example_post ''/logs/batch'' Null) start =
     catch500 example_platform
       (handlePostBatch example_platform example_env (example_post ''/logs/batch'' Null) start)
   \<and> worker_fetch_part000 example_platform example_env (example_post ''/logs/batch'' Null) start =
     catch500_part000 example_platform
       (handlePostBatch_part000 example_platform example_env
          (example_post ''/logs/batch'' Null) start)"
proof -
  have post: "req_method (example_post path Null) \<noteq> ''OPTIONS''" for path
    by (simp add: example_post_def)
  have get: "req_method (example_get path (\<lambda>k. None)) \<noteq> ''OPTIONS''" for path
    by (simp add: example_get_def)
  have t: "toISOString example_platform (date_now example_platform (world start))
      = ''1700000000000''"
    by (simp add: example_platform_def start_def num_to_string_def digits.simps)
  have a: "worker_fetch_part000 example_platform example_env (example_post ''/health'' Null) start =
     (\<lparr>resp_status = 404, resp_headers = CORS_HEADERS_part000,
       resp_body = TextBody ''Not Found''\<rparr>, start)"
    using routing [OF post [of "''/health''"],
        where P = example_platform and e = example_env and s = start]
    by (simp add: example_post_def)
  have b: "worker_fetch example_platform example_env (example_post ''/nowhere'' Null) start =
     (\<lparr>resp_status = 404, resp_headers = CORS_HEADERS,
       resp_body = TextBody ''Not Found''\<rparr>, start)"
    using routing [OF post [of "''/nowhere''"],
        where P = example_platform and e = example_env and s = start]
    by (simp add: example_post_def)
  have c: "worker_fetch example_platform example_env (example_get ''/health'' (\<lambda>k. None)) start =
       (jsonResponse (Obj [(''status'', Str ''ok''),
          (''timestamp'', Str ''1700000000000'')]) 200, start)
     \<and> worker_fetch_part000 example_platform example_env (example_get ''/health'' (\<lambda>k. None)) start =
       (jsonResponse_part000 (Obj [(''status'', Str ''ok''),
          (''timestamp'', Str ''1700000000000'')]) 200, start)"
    using routing [OF get [of "''/health''"],
        where P = example_platform and e = example_env and s = start]
    unfolding t by (simp add: example_get_def)
  have d: "worker_fetch example_platform example_env (example_get ''/logs'' (\<lambda>k. None)) start =
       catch500 example_platform
         (handleGetLogs example_platform example_env (example_get ''/logs'' (\<lambda>k. None)) start)
     \<and> worker_fetch_part000 example_platform example_env (example_get ''/logs'' (\<lambda>k. None)) start =
       catch500_part000 example_platform
         (handleGetLogs_part000 example_platform example_env (example_get ''/logs'' (\<lambda>k. None)) start)"
    using routing [OF get [of "''/logs''"],
        where P = example_platform and e = example_env and s = start]
    by (simp add: example_get_def)
  have e: "worker_fetch example_platform example_env (example_post ''/logs'' Null) start =
       catch500 example_platform
         (handlePostLog example_platform example_env (example_post ''/logs'' Null) start)
     \<and> worker_fetch_part000 example_platform example_env (example_post ''/logs'' Null) start =
       catch500_part000 example_platform
         (handlePostLog_part000 example_platform example_env (example_post ''/logs'' Null) start)"
    using routing [OF post [of "''/logs''"],
        where P = example_platform and e = example_env and s = start]
    by (simp add: example_post_def)
  have f: "worker_fetch example_platform example_env (example_post ''/logs/batch'' Null) start =
       catch500 example_platform
         (handlePostBatch example_platform example_env (example_post ''/logs/batch'' Null) start)
     \<and> worker_fetch_part000 example_platform example_env (example_post ''/logs/batch'' Null) start =
       catch500_part000 example_platform
         (handlePostBatch_part000 example_platform example_env
            (example_post ''/logs/batch'' Null) start)"
    using routing [OF post [of "''/logs/batch''"],
        where P = example_platform and e = example_env and s = start]
    by (simp add: example_post_def)
  from a b c d e f show ?thesis by blast
qed

text \<open>In \<^verbatim>\<open>src/worker.js\<close>, \<^verbatim>\<open>POST /health\<close> is none of the four pairs and is
  answered with status 200.\<close>

theorem health_any_method_counterexample:
  "resp_status (fst (worker_fetch example_platform example_env
      (example_post ''/health'' Null) start)) = 200
   \<and> (req_method (example_post ''/health'' Null), req_pathname (example_post ''/health'' Null)) \<notin>
          {(''GET'', ''/health''), (''GET'', ''/logs''), (''POST'', ''/logs''),
           (''POST'', ''/logs/batch'')}
   \<and> req_method (example_post ''/health'' Null) \<noteq> ''OPTIONS''"
  by (simp add: worker_fetch_def catch500_def example_post_def jsonResponse_def)

lemma jsonResponse_headers [simp]: "resp_headers (jsonResponse d st) = json_headers"
  by (simp add: jsonResponse_def json_headers_def)

lemma jsonResponse_part000_headers [simp]:
  "resp_headers (jsonResponse_part000 d st) = json_headers_part000"
  by (simp add: jsonResponse_part000_def json_headers_part000_def)

lemma handleGetLogs_headers: "sent_with json_headers (fst (handleGetLogs P e req s))"
  by (simp add: handleGetLogs_def Let_def split: prod.splits fetch_result.splits sum.splits)

lemma handlePostLog_headers: "sent_with json_headers (fst (handlePostLog P e req s))"
  by (simp add: handlePostLog_def split: prod.splits fetch_result.splits sum.splits)

lemma handlePostBatch_headers: "sent_with json_headers (fst (handlePostBatch P e req s))"
  by (simp add: handlePostBatch_def Let_def split: prod.splits sum.splits)

lemma handleGetLogs_part000_headers:
  "sent_with json_headers_part000 (fst (handleGetLogs_part000 P e req s))"
  by (simp add: handleGetLogs_part000_def Let_def split: prod.splits fetch_result.splits sum.splits)

lemma handlePostLog_part000_headers:
  "sent_with json_headers_part000 (fst (handlePostLog_part000 P e req s))"
  by (simp add: handlePostLog_part000_def split: prod.splits fetch_result.splits sum.splits)

lemma handlePostBatch_part000_headers:
  "sent_with json_headers_part000 (fst (handlePostBatch_part000 P e req s))"
  by (simp add: handlePostBatch_part000_def Let_def split: prod.splits sum.splits)

lemma catch500_headers:
  "sent_with json_headers (fst x) \<Longrightarrow> resp_headers (fst (catch500 P x)) = json_headers"
  by (cases x; cases "fst x") (simp_all add: catch500_def)

lemma catch500_part000_headers:
  "sent_with json_headers_part000 (fst x) \<Longrightarrow>
   resp_headers (fst (catch500_part000 P x)) = json_headers_part000"
  by (cases x; cases "fst x") (simp_all add: catch500_part000_def)

lemma catch500_Inr: "catch500 P (Inr r, s) = (r, s)"
  by (simp add: catch500_def)

lemma catch500_part000_Inr: "catch500_part000 P (Inr r, s) = (r, s)"
  by (simp add: catch500_part000_def)

lemma worker_fetch_headers:
  "resp_headers (fst (worker_fetch P e req s)) = CORS_HEADERS
   \<or> resp_headers (fst (worker_fetch P e req s)) = json_headers"
  unfolding worker_fetch_def
  by (simp add: catch500_headers handleGetLogs_headers handlePostLog_headers
      handlePostBatch_headers catch500_Inr)

lemma worker_fetch_part000_headers:
  "resp_headers (fst (worker_fetch_part000 P e req s)) = CORS_HEADERS_part000
   \<or> resp_headers (fst (worker_fetch_part000 P e req s)) = json_headers_part000"
  unfolding worker_fetch_part000_def
  by (simp add: catch500_part000_headers handleGetLogs_part000_headers
      handlePostLog_part000_headers handlePostBatch_part000_headers catch500_part000_Inr)

text \<open>
  Claim C7, as the code has it. Every response of the worker, whatever the request,
  the environment and the backend, carries the cross-origin headers
  \<^verbatim>\<open>Access-Control-Allow-Origin: *\<close>,
  \<^verbatim>\<open>Access-Control-Allow-Methods: GET, POST, OPTIONS\<close> and
  \<^verbatim>\<open>Access-Control-Allow-Headers: Content-Type, Authorization\<close>: its headers are
  the fixed list, alone or after \<^verbatim>\<open>Content-Type: application/json\<close>. In
  \<^verbatim>\<open>src/worker.js\<close> the list also holds \<^verbatim>\<open>Access-Control-Max-Age: 86400\<close>; in
  \<^verbatim>\<open>src/unnamed/part_000\<close> no response carries \<^verbatim>\<open>Access-Control-Max-Age\<close>.
\<close>

theorem cors_on_every_response:
  "map_of (resp_headers (fst (worker_fetch P e req s))) ''Access-Control-Allow-Origin'' = Some ''*''
   \<and> map_of (resp_headers (fst (worker_fetch P e req s))) ''Access-Control-Allow-Methods''
       = Some ''GET, POST, OPTIONS''
   \<and> map_of (resp_headers (fst (worker_fetch P e req s))) ''Access-Control-Allow-Headers''
       = Some ''Content-Type, Authorization''
   \<and> map_of (resp_headers (fst (worker_fetch P e req s))) ''Access-Control-Max-Age''
       = Some ''86400''
   \<and> map_of (resp_headers (fst (worker_fetch_part000 P e req s))) ''Access-Control-Allow-Origin''
       = Some ''*''
   \<and> map_of (resp_headers (fst (worker_fetch_part000 P e req s))) ''Access-Control-Allow-Methods''
       = Some ''GET, POST, OPTIONS''
   \<and> map_of (resp_headers (fst (worker_fetch_part000 P e req s))) ''Access-Control-Allow-Headers''
       = Some ''Content-Type, Authorization''
   \<and> map_of (resp_headers (fst (worker_fetch_part000 P e req s))) ''Access-Control-Max-Age''
       = None
   \<and> (resp_headers (fst (worker_fetch P e req s)) = CORS_HEADERS
      \<or> resp_headers (fst (worker_fetch P e req s)) = json_headers)
   \<and> (resp_headers (fst (worker_fetch_part000 P e req s)) = CORS_HEADERS_part000
      \<or> resp_headers (fst (worker_fetch_part000 P e req s)) = json_headers_part000)"
proof -
  have a: "resp_headers (fst (worker_fetch P e req s)) = CORS_HEADERS
      \<or> resp_headers (fst (worker_fetch P e req s)) = json_headers"
    by (rule worker_fetch_headers)
  have b: "resp_headers (fst (worker_fetch_part000 P e req s)) = CORS_HEADERS_part000
      \<or> resp_headers (fst (worker_fetch_part000 P e req s)) = json_headers_part000"
    by (rule worker_fetch_part000_headers)
  from a have a': "map_of (resp_headers (fst (worker_fetch P e req s))) ''Access-Control-Allow-Origin'' = Some ''*''
   \<and> map_of (resp_headers (fst (worker_fetch P e req s))) ''Access-Control-Allow-Methods''
       = Some ''GET, POST, OPTIONS''
   \<and> map_of (resp_headers (fst (worker_fetch P e req s))) ''Access-Control-Allow-Headers''
       = Some ''Content-Type, Authorization''
   \<and> map_of (resp_headers (fst (worker_fetch P e req s))) ''Access-Control-Max-Age''
       = Some ''86400''"
    by (elim disjE) (simp_all add: CORS_HEADERS_def json_headers_def)
  from b have b': "map_of (resp_headers (fst (worker_fetch_part000 P e req s))) ''Access-Control-Allow-Origin''
       = Some ''*''
   \<and> map_of (resp_headers (fst (worker_fetch_part000 P e req s))) ''Access-Control-Allow-Methods''
       = Some ''GET, POST, OPTIONS''
   \<and> map_of (resp_headers (fst (worker_fetch_part000 P e req s))) ''Access-Control-Allow-Headers''
       = Some ''Content-Type, Authorization''
   \<and> map_of (resp_headers (fst (worker_fetch_part000 P e req s))) ''Access-Control-Max-Age''
       = None"
    by (elim disjE) (simp_all add: CORS_HEADERS_part000_def json_headers_part000_def)
  from a a' b b' show ?thesis by blast
qed

theorem cors_on_every_response_witness:
  "map_of (resp_headers (fst (worker_fetch example_platform example_env
       (example_post ''/logs'' Null) start))) ''Access-Control-Max-Age'' = Some ''86400''
   \<and> resp_status (fst (worker_fetch example_platform example_env
       (example_post ''/logs'' Null) start)) = 500"
proof -
  have a: "map_of (resp_headers (fst (worker_fetch example_platform example_env
       (example_post ''/logs'' Null) start))) ''Access-Control-Max-Age'' = Some ''86400''"
    using cors_on_every_response [of example_platform example_env "example_post ''/logs'' Null" start]
    by blast
  have b: "resp_status (fst (worker_fetch example_platform example_env
       (example_post ''/logs'' Null) start)) = 500"
    by (simp add: worker_fetch_def catch500_def handlePostLog_def example_post_def jsonResponse_def)
  from a b show ?thesis by blast
qed

text \<open>In \<^verbatim>\<open>src/unnamed/part_000\<close> the response to \<^verbatim>\<open>GET /health\<close> has no
  \<^verbatim>\<open>Access-Control-Max-Age\<close> header.\<close>

theorem no_max_age_part000_counterexample:
  "map_of (resp_headers (fst (worker_fetch_part000 example_platform example_env
       (example_get ''/health'' (\<lambda>k. None)) start))) ''Access-Control-Max-Age'' = None"
  by (simp add: worker_fetch_part000_def catch500_part000_def example_get_def
      jsonResponse_part000_def CORS_HEADERS_part000_def)

subsection \<open>Relay errors\<close>

lemma route_get:
  "req_method req = ''GET'' \<Longrightarrow> req_pathname req = ''/logs'' \<Longrightarrow>
   worker_fetch P e req s = catch500 P (handleGetLogs P e req s)"
  by (simp add: worker_fetch_def)

lemma route_get_part000:
  "req_method req = ''GET'' \<Longrightarrow> req_pathname req = ''/logs'' \<Longrightarrow>
   worker_fetch_part000 P e req s = catch500_part000 P (handleGetLogs_part000 P e req s)"
  by (simp add: worker_fetch_part000_def)

lemma snd_catch500 [simp]: "snd (catch500 P x) = snd x"
  by (cases x; cases "fst x") (simp_all add: catch500_def)

lemma snd_catch500_part000 [simp]: "snd (catch500_part000 P x) = snd x"
  by (cases x; cases "fst x") (simp_all add: catch500_part000_def)









subsection \<open>The expiry stamp\<close>

lemma build_payload_expires:
  "build_payload P x hdr w = Inr p \<Longrightarrow>
   \<exists>kvs. p = Obj kvs
     \<and> map_of kvs ''expires_at'' = Some (Str (toISOString P (date_now P w + thirty_days)))"
  by (cases x) (auto simp: build_payload_def)

lemma build_payload_with_expires:
  "build_payload P (with_prop ''expires_at'' v x) hdr w = build_payload P x hdr w"
  by (cases x) (simp_all add: build_payload_def)

lemma insertSingleLog_with_expires:
  "insertSingleLog P e (with_prop ''expires_at'' v x) hdr = insertSingleLog P e x hdr"
  by (rule ext) (simp add: insertSingleLog_def build_payload_with_expires)

lemma get_prop_with_expires:
  "p \<noteq> ''expires_at'' \<Longrightarrow> get_prop (with_prop ''expires_at'' v x) p = get_prop x p"
  by (cases x) simp_all

lemma insertSingleLog_stamped:
  "\<exists>new. calls (snd (insertSingleLog P e x hdr s)) = calls s @ new \<and> list_all (stamped P) new"
proof (cases "build_payload P x hdr (world s)")
  case (Inl err)
  then show ?thesis by (simp add: insertSingleLog_def)
next
  case (Inr p)
  then obtain kvs where k: "p = Obj kvs"
    and m: "map_of kvs ''expires_at'' = Some (Str (toISOString P (date_now P (world s) + thirty_days)))"
    using build_payload_expires [of P x hdr "world s" p] by blast
  obtain res w' where f: "fetch P \<lparr>out_url = SUPABASE_URL e @ ''/rest/v1/console_logs'', out_method = ''POST'',
          out_headers = backend_headers e (''Content-Type'', ''application/json'')
            @ [(''Prefer'', ''return=minimal'')],
          out_body = Some p\<rparr> (world s) = (res, w')"
    by (cases "fetch P \<lparr>out_url = SUPABASE_URL e @ ''/rest/v1/console_logs'', out_method = ''POST'',
          out_headers = backend_headers e (''Content-Type'', ''application/json'')
            @ [(''Prefer'', ''return=minimal'')],
          out_body = Some p\<rparr> (world s)")
  have "calls (snd (insertSingleLog P e x hdr s)) = calls s @ [(world s, \<lparr>out_url = SUPABASE_URL e @ ''/rest/v1/console_logs'', out_method = ''POST'',
          out_headers = backend_headers e (''Content-Type'', ''application/json'')
            @ [(''Prefer'', ''return=minimal'')],
          out_body = Some p\<rparr>)]"
    using Inr f by (simp add: insertSingleLog_def do_fetch_def split: fetch_result.splits)
  moreover have "list_all (stamped P) [(world s, \<lparr>out_url = SUPABASE_URL e @ ''/rest/v1/console_logs'', out_method = ''POST'',
          out_headers = backend_headers e (''Content-Type'', ''application/json'')
            @ [(''Prefer'', ''return=minimal'')],
          out_body = Some p\<rparr>)]"
    using k m by (simp add: stamped_def payload_prop_def)
  ultimately show ?thesis by blast
qed

lemma allSettled_stamped:
  "\<exists>new. calls (snd (allSettled (map (\<lambda>x. insertSingleLog P e x hdr) xs) s)) = calls s @ new
     \<and> list_all (stamped P) new"
proof (induction xs arbitrary: s)
  case Nil
  show ?case by simp
next
  case (Cons x xs)
  let ?s1 = "snd (insertSingleLog P e x hdr s)"
  obtain n1 where a: "calls ?s1 = calls s @ n1" and b: "list_all (stamped P) n1"
    using insertSingleLog_stamped [of P e x hdr s] by blast
  obtain n2 where c: "calls (snd (allSettled (map (\<lambda>x. insertSingleLog P e x hdr) xs) ?s1))
        = calls ?s1 @ n2"
    and d: "list_all (stamped P) n2"
    using Cons [of ?s1] by blast
  have "calls (snd (allSettled (map (\<lambda>x. insertSingleLog P e x hdr) (x # xs)) s))
      = calls s @ (n1 @ n2)"
    using a c by (simp add: snd_allSettled_Cons del: allSettled.simps(2))
  moreover have "list_all (stamped P) (n1 @ n2)" using b d by simp
  ultimately show ?case by blast
qed

lemma stamped_new_calls:
  "calls s' = calls s @ new \<Longrightarrow> list_all (stamped P) new \<Longrightarrow>
   list_all (stamped P) (drop (length (calls s)) (calls s'))"
  by simp

lemma handlePostBatch_stamped:
  "list_all (stamped P) (drop (length (calls s)) (calls (snd (handlePostBatch P e req s))))"
proof -
  have "snd (handlePostBatch P e req s) = s
    \<or> (\<exists>xs. snd (handlePostBatch P e req s)
           = snd (allSettled (map (\<lambda>x. insertSingleLog P e x (req_header req)) xs) s))"
    by (auto simp: handlePostBatch_def Let_def case_prod_unfold split: sum.splits)
  then show ?thesis
  proof
    assume "snd (handlePostBatch P e req s) = s"
    then show ?thesis by simp
  next
    assume "\<exists>xs. snd (handlePostBatch P e req s)
           = snd (allSettled (map (\<lambda>x. insertSingleLog P e x (req_header req)) xs) s)"
    then obtain xs where x: "snd (handlePostBatch P e req s)
           = snd (allSettled (map (\<lambda>x. insertSingleLog P e x (req_header req)) xs) s)"
      by blast
    obtain new where "calls (snd (allSettled (map (\<lambda>x. insertSingleLog P e x (req_header req)) xs) s))
        = calls s @ new" and "list_all (stamped P) new"
      using allSettled_stamped [of P e "req_header req" xs s] by blast
    then show ?thesis unfolding x by simp
  qed
qed

lemma stamped_payload:
  "build_payload P x hdr w = Inr p \<Longrightarrow> out_body rq = Some p \<Longrightarrow> stamped P (w, rq)"
  using build_payload_expires [of P x hdr w p]
  by (auto simp: stamped_def payload_prop_def)

lemma handlePostLog_one_call:
  "calls (snd (handlePostLog P e req s)) = calls s
   \<or> (\<exists>x p rq. build_payload P x (req_header req) (world s) = Inr p \<and> out_body rq = Some p
         \<and> calls (snd (handlePostLog P e req s)) = calls s @ [(world s, rq)])"
proof (cases "req_json req")
  case (Inl m)
  then show ?thesis by (simp add: handlePostLog_def)
next
  case j: (Inr body)
  show ?thesis
  proof (cases "build_payload P body (req_header req) (world s)")
    case (Inl err)
    with j have "snd (handlePostLog P e req s) = s"
      by (simp add: handlePostLog_def split: sum.splits)
    then show ?thesis by simp
  next
    case pl: (Inr p)
    let ?rq = "\<lparr>out_url = SUPABASE_URL e @ ''/rest/v1/console_logs'', out_method = ''POST'',
          out_headers = backend_headers e (''Content-Type'', ''application/json'')
            @ [(''Prefer'', ''return=representation'')],
          out_body = Some p\<rparr>"
    have "calls (snd (handlePostLog P e req s)) = calls s
      \<or> calls (snd (handlePostLog P e req s)) = calls s @ [(world s, ?rq)]"
      using j pl
      by (simp add: handlePostLog_def do_fetch_def case_prod_unfold
          split: sum.splits fetch_result.splits)
    moreover have "out_body ?rq = Some p" by simp
    ultimately show ?thesis using pl by blast
  qed
qed

lemma handlePostLog_part000_one_call:
  "calls (snd (handlePostLog_part000 P e req s)) = calls s
   \<or> (\<exists>x p rq. build_payload P x (req_header req) (world s) = Inr p \<and> out_body rq = Some p
         \<and> calls (snd (handlePostLog_part000 P e req s)) = calls s @ [(world s, rq)])"
proof (cases "req_json req")
  case (Inl m)
  then show ?thesis by (simp add: handlePostLog_part000_def)
next
  case j: (Inr body)
  show ?thesis
  proof (cases "build_payload P body (req_header req) (world s)")
    case (Inl err)
    with j have "snd (handlePostLog_part000 P e req s) = s"
      by (simp add: handlePostLog_part000_def split: sum.splits)
    then show ?thesis by simp
  next
    case pl: (Inr p)
    let ?rq = "\<lparr>out_url = SUPABASE_URL e @ ''/rest/v1/console_logs'', out_method = ''POST'',
          out_headers = backend_headers e (''Content-Type'', ''application/json'')
            @ [(''Prefer'', ''return=representation'')],
          out_body = Some p\<rparr>"
    have "calls (snd (handlePostLog_part000 P e req s)) = calls s
      \<or> calls (snd (handlePostLog_part000 P e req s)) = calls s @ [(world s, ?rq)]"
      using j pl
      by (simp add: handlePostLog_part000_def do_fetch_def case_prod_unfold
          split: sum.splits fetch_result.splits)
    moreover have "out_body ?rq = Some p" by simp
    ultimately show ?thesis using pl by blast
  qed
qed

lemma handlePostBatch_part000_stamped:
  "list_all (stamped P) (drop (length (calls s)) (calls (snd (handlePostBatch_part000 P e req s))))"
proof -
  have "snd (handlePostBatch_part000 P e req s) = s
    \<or> (\<exists>xs. snd (handlePostBatch_part000 P e req s)
           = snd (allSettled (map (\<lambda>x. insertSingleLog P e x (req_header req)) xs) s))"
    by (auto simp: handlePostBatch_part000_def Let_def case_prod_unfold split: sum.splits)
  then show ?thesis
  proof
    assume "snd (handlePostBatch_part000 P e req s) = s"
    then show ?thesis by simp
  next
    assume "\<exists>xs. snd (handlePostBatch_part000 P e req s)
           = snd (allSettled (map (\<lambda>x. insertSingleLog P e x (req_header req)) xs) s)"
    then obtain xs where x: "snd (handlePostBatch_part000 P e req s)
           = snd (allSettled (map (\<lambda>x. insertSingleLog P e x (req_header req)) xs) s)"
      by blast
    obtain new where "calls (snd (allSettled (map (\<lambda>x. insertSingleLog P e x (req_header req)) xs) s))
        = calls s @ new" and "list_all (stamped P) new"
      using allSettled_stamped [of P e "req_header req" xs s] by blast
    then show ?thesis unfolding x by simp
  qed
qed

lemma handlePostLog_stamped:
  "list_all (stamped P) (drop (length (calls s)) (calls (snd (handlePostLog P e req s))))"
  using handlePostLog_one_call [of P e req s] by (auto simp: stamped_payload)

lemma handlePostLog_part000_stamped:
  "list_all (stamped P) (drop (length (calls s)) (calls (snd (handlePostLog_part000 P e req s))))"
  using handlePostLog_part000_one_call [of P e req s] by (auto simp: stamped_payload)

lemma worker_fetch_post_stamped:
  assumes "req_method req = ''POST''"
  shows "list_all (stamped P) (drop (length (calls s)) (calls (snd (worker_fetch P e req s))))"
  using assms
  by (simp add: worker_fetch_def handlePostLog_stamped handlePostBatch_stamped)

lemma worker_fetch_part000_post_stamped:
  assumes "req_method req = ''POST''"
  shows "list_all (stamped P)
     (drop (length (calls s)) (calls (snd (worker_fetch_part000 P e req s))))"
  using assms
  by (simp add: worker_fetch_part000_def handlePostLog_part000_stamped
      handlePostBatch_part000_stamped)

lemma handlePostLog_with_expires:
  assumes "req_json req = Inr body"
  shows "handlePostLog P e (req\<lparr>req_json := Inr (with_prop ''expires_at'' v body)\<rparr>) s
     = handlePostLog P e req s"
  using assms
  by (simp add: handlePostLog_def get_prop_with_expires build_payload_with_expires
      cong: sum.case_cong if_cong)

lemma handlePostLog_part000_with_expires:
  assumes "req_json req = Inr body"
  shows "handlePostLog_part000 P e (req\<lparr>req_json := Inr (with_prop ''expires_at'' v body)\<rparr>) s
     = handlePostLog_part000 P e req s"
  using assms
  by (simp add: handlePostLog_part000_def get_prop_with_expires build_payload_with_expires
      cong: sum.case_cong if_cong)

lemma inserts_with_expires:
  assumes "length vs = length xs"
  shows "map (\<lambda>entry. insertSingleLog P e entry hdr)
       (take n (map2 (with_prop ''expires_at'') vs xs))
     = map (\<lambda>entry. insertSingleLog P e entry hdr) (take n xs)"
proof -
  have "map (\<lambda>entry. insertSingleLog P e entry hdr) (map2 (with_prop ''expires_at'') vs xs)
      = map (\<lambda>entry. insertSingleLog P e entry hdr) xs"
    using assms
    by (induction vs xs rule: list_induct2) (simp_all add: insertSingleLog_with_expires)
  then show ?thesis by (simp add: take_map [symmetric])
qed

lemma handlePostBatch_with_expires:
  assumes j: "req_json req = Inr body" and l: "get_prop body ''logs'' = Inr (Arr xs)"
    and n: "length vs = length xs"
  shows "handlePostBatch P e
       (req\<lparr>req_json := Inr (Obj [(''logs'', Arr (map2 (with_prop ''expires_at'') vs xs))])\<rparr>) s
     = handlePostBatch P e req s"
  using n by (simp add: handlePostBatch_settled [OF j l]
      handlePostBatch_settled [where body = "Obj [(''logs'', Arr (map2 (with_prop ''expires_at'') vs xs))]"
        and xs = "map2 (with_prop ''expires_at'') vs xs"]
      inserts_with_expires)

lemma handlePostBatch_part000_with_expires:
  assumes j: "req_json req = Inr body" and l: "get_prop body ''logs'' = Inr (Arr xs)"
    and n: "length vs = length xs"
  shows "handlePostBatch_part000 P e
       (req\<lparr>req_json := Inr (Obj [(''logs'', Arr (map2 (with_prop ''expires_at'') vs xs))])\<rparr>) s
     = handlePostBatch_part000 P e req s"
proof (cases "xs = []")
  case True
  with j l n show ?thesis by (simp add: handlePostBatch_part000_def)
next
  case False
  with n have ne: "map2 (with_prop ''expires_at'') vs xs \<noteq> []"
    by (cases vs; cases xs) simp_all
  show ?thesis
    using n by (simp add: handlePostBatch_part000_settled [OF j l False]
      handlePostBatch_part000_settled [where body = "Obj [(''logs'', Arr (map2 (with_prop ''expires_at'') vs xs))]"
        and xs = "map2 (with_prop ''expires_at'') vs xs", OF _ _ ne]
      inserts_with_expires)
qed

lemma get_prop_not_nullish: "get_prop body p = Inr v \<Longrightarrow> \<not> nullish body"
  by (cases body) simp_all

lemma handlePostLog_valid_call:
  assumes j: "req_json req = Inr body"
    and l: "get_prop body ''level'' = Inr lv" and tl: "truthy lv"
    and m: "get_prop body ''message'' = Inr mv" and tm: "truthy mv"
  shows "\<exists>rq. calls (snd (handlePostLog P e req s)) = calls s @ [(world s, rq)]
      \<and> out_method rq = ''POST'' \<and> out_url rq = SUPABASE_URL e @ ''/rest/v1/console_logs''
      \<and> stamped P (world s, rq)"
proof -
  have "\<not> nullish body" using l by (rule get_prop_not_nullish)
  then obtain p where pl: "build_payload P body (req_header req) (world s) = Inr p"
    using build_payload_value [where P = P and hdr = "req_header req" and w = "world s"] by blast
  let ?rq = "\<lparr>out_url = SUPABASE_URL e @ ''/rest/v1/console_logs'', out_method = ''POST'',
        out_headers = backend_headers e (''Content-Type'', ''application/json'')
          @ [(''Prefer'', ''return=representation'')],
        out_body = Some p\<rparr>"
  have c: "calls (snd (handlePostLog P e req s)) = calls s @ [(world s, ?rq)]"
    using j l tl m tm pl
    by (simp add: handlePostLog_def do_fetch_def case_prod_unfold
        split: sum.splits fetch_result.splits)
  have st: "stamped P (world s, ?rq)"
    by (rule stamped_payload [OF pl]) simp
  show ?thesis
    by (rule exI [of _ ?rq]) (simp add: c st)
qed

lemma handlePostLog_part000_valid_call:
  assumes j: "req_json req = Inr body"
    and l: "get_prop body ''level'' = Inr lv" and tl: "truthy lv"
    and m: "get_prop body ''message'' = Inr mv" and tm: "truthy mv"
  shows "\<exists>rq. calls (snd (handlePostLog_part000 P e req s)) = calls s @ [(world s, rq)]
      \<and> out_method rq = ''POST'' \<and> out_url rq = SUPABASE_URL e @ ''/rest/v1/console_logs''
      \<and> stamped P (world s, rq)"
proof -
  have "\<not> nullish body" using l by (rule get_prop_not_nullish)
  then obtain p where pl: "build_payload P body (req_header req) (world s) = Inr p"
    using build_payload_value [where P = P and hdr = "req_header req" and w = "world s"] by blast
  let ?rq = "\<lparr>out_url = SUPABASE_URL e @ ''/rest/v1/console_logs'', out_method = ''POST'',
        out_headers = backend_headers e (''Content-Type'', ''application/json'')
          @ [(''Prefer'', ''return=representation'')],
        out_body = Some p\<rparr>"
  have c: "calls (snd (handlePostLog_part000 P e req s)) = calls s @ [(world s, ?rq)]"
    using j l tl m tm pl
    by (simp add: handlePostLog_part000_def do_fetch_def case_prod_unfold
        split: sum.splits fetch_result.splits)
  have st: "stamped P (world s, ?rq)"
    by (rule stamped_payload [OF pl]) simp
  show ?thesis
    by (rule exI [of _ ?rq]) (simp add: c st)
qed

lemma handlePostBatch_calls:
  assumes j: "req_json req = Inr body" and l: "get_prop body ''logs'' = Inr (Arr xs)"
  shows "length (calls (snd (handlePostBatch P e req s)))
     = length (calls s) + length (filter (\<lambda>x. \<not> nullish x) (take 100 xs))"
  by (simp add: handlePostBatch_settled [OF j l] allSettled_calls)

lemma handlePostBatch_part000_calls:
  assumes j: "req_json req = Inr body" and l: "get_prop body ''logs'' = Inr (Arr xs)"
  shows "length (calls (snd (handlePostBatch_part000 P e req s)))
     = length (calls s) + length (filter (\<lambda>x. \<not> nullish x) (take 100 xs))"
proof (cases "xs = []")
  case True
  with j l show ?thesis by (simp add: handlePostBatch_part000_def)
next
  case False
  show ?thesis by (simp add: handlePostBatch_part000_settled [OF j l False] allSettled_calls)
qed

text \<open>
  Claim C9. Every call to the backend that a \<^verbatim>\<open>POST\<close> request causes, for a single
  write or for an entry of a batch, carries a payload whose \<^verbatim>\<open>expires_at\<close> is the
  ISO form of the clock at the time of the call plus thirty days. What the client
  supplies as \<^verbatim>\<open>expires_at\<close> has no effect: setting that property to any value
  \<open>v\<close> in the body of a single write, or to any values \<open>vs\<close> in the entries of a
  batch, leaves the response, the world and the calls made as they are without it.
  And the calls are made: a single write whose \<^verbatim>\<open>level\<close> and \<^verbatim>\<open>message\<close> are
  truthy makes exactly one call, a \<^verbatim>\<open>POST\<close> to \<^verbatim>\<open>/rest/v1/console_logs\<close> with such a
  payload, and a batch makes one call for each of its first 100 entries that is not
  \<^verbatim>\<open>null\<close> or \<^verbatim>\<open>undefined\<close>; in both files.
\<close>

theorem expiry_is_server_stamped:
  assumes m: "req_method req = ''POST''"
  shows
   "list_all (stamped P) (drop (length (calls s)) (calls (snd (worker_fetch P e req s))))
    \<and> list_all (stamped P)
          (drop (length (calls s)) (calls (snd (worker_fetch_part000 P e req s))))
    \<and> (req_pathname req = ''/logs'' \<and> req_json req = Inr body \<longrightarrow>
         worker_fetch P e (req\<lparr>req_json := Inr (with_prop ''expires_at'' v body)\<rparr>) s
           = worker_fetch P e req s
         \<and> worker_fetch_part000 P e (req\<lparr>req_json := Inr (with_prop ''expires_at'' v body)\<rparr>) s
           = worker_fetch_part000 P e req s)
    \<and> (req_pathname req = ''/logs/batch'' \<and> req_json req = Inr body
         \<and> get_prop body ''logs'' = Inr (Arr xs) \<and> length vs = length xs \<longrightarrow>
         worker_fetch P e
             (req\<lparr>req_json :=
                Inr (Obj [(''logs'', Arr (map2 (with_prop ''expires_at'') vs xs))])\<rparr>) s
           = worker_fetch P e req s
         \<and> worker_fetch_part000 P e
             (req\<lparr>req_json :=
                Inr (Obj [(''logs'', Arr (map2 (with_prop ''expires_at'') vs xs))])\<rparr>) s
           = worker_fetch_part000 P e req s)
    \<and> (req_pathname req = ''/logs'' \<and> req_json req = Inr body
         \<and> get_prop body ''level'' = Inr lv \<and> truthy lv
         \<and> get_prop body ''message'' = Inr mv \<and> truthy mv \<longrightarrow>
         (\<exists>rq. calls (snd (worker_fetch P e req s)) = calls s @ [(world s, rq)]
            \<and> out_method rq = ''POST''
            \<and> out_url rq = SUPABASE_URL e @ ''/rest/v1/console_logs''
            \<and> stamped P (world s, rq))
         \<and> (\<exists>rq. calls (snd (worker_fetch_part000 P e req s)) = calls s @ [(world s, rq)]
            \<and> out_method rq = ''POST''
            \<and> out_url rq = SUPABASE_URL e @ ''/rest/v1/console_logs''
            \<and> stamped P (world s, rq)))
    \<and> (req_pathname req = ''/logs/batch'' \<and> req_json req = Inr body
         \<and> get_prop body ''logs'' = Inr (Arr xs) \<longrightarrow>
         length (calls (snd (worker_fetch P e req s)))
           = length (calls s) + length (filter (\<lambda>x. \<not> nullish x) (take 100 xs))
         \<and> length (calls (snd (worker_fetch_part000 P e req s)))
           = length (calls s) + length (filter (\<lambda>x. \<not> nullish x) (take 100 xs)))"
proof -
  have a: "list_all (stamped P) (drop (length (calls s)) (calls (snd (worker_fetch P e req s))))"
    using m by (rule worker_fetch_post_stamped)
  have b: "list_all (stamped P)
          (drop (length (calls s)) (calls (snd (worker_fetch_part000 P e req s))))"
    using m by (rule worker_fetch_part000_post_stamped)
  have c: "req_pathname req = ''/logs'' \<and> req_json req = Inr body \<longrightarrow>
         worker_fetch P e (req\<lparr>req_json := Inr (with_prop ''expires_at'' v body)\<rparr>) s
           = worker_fetch P e req s
         \<and> worker_fetch_part000 P e (req\<lparr>req_json := Inr (with_prop ''expires_at'' v body)\<rparr>) s
           = worker_fetch_part000 P e req s"
    using m by (simp add: route_post route_post_part000 handlePostLog_with_expires
        handlePostLog_part000_with_expires)
  have d: "req_pathname req = ''/logs/batch'' \<and> req_json req = Inr body
         \<and> get_prop body ''logs'' = Inr (Arr xs) \<and> length vs = length xs \<longrightarrow>
         worker_fetch P e
             (req\<lparr>req_json :=
                Inr (Obj [(''logs'', Arr (map2 (with_prop ''expires_at'') vs xs))])\<rparr>) s
           = worker_fetch P e req s
         \<and> worker_fetch_part000 P e
             (req\<lparr>req_json :=
                Inr (Obj [(''logs'', Arr (map2 (with_prop ''expires_at'') vs xs))])\<rparr>) s
           = worker_fetch_part000 P e req s"
    using m by (simp add: route_batch route_batch_part000 handlePostBatch_with_expires
        handlePostBatch_part000_with_expires)
  have f: "req_pathname req = ''/logs'' \<and> req_json req = Inr body
         \<and> get_prop body ''level'' = Inr lv \<and> truthy lv
         \<and> get_prop body ''message'' = Inr mv \<and> truthy mv \<longrightarrow>
         (\<exists>rq. calls (snd (worker_fetch P e req s)) = calls s @ [(world s, rq)]
            \<and> out_method rq = ''POST''
            \<and> out_url rq = SUPABASE_URL e @ ''/rest/v1/console_logs''
            \<and> stamped P (world s, rq))
         \<and> (\<exists>rq. calls (snd (worker_fetch_part000 P e req s)) = calls s @ [(world s, rq)]
            \<and> out_method rq = ''POST''
            \<and> out_url rq = SUPABASE_URL e @ ''/rest/v1/console_logs''
            \<and> stamped P (world s, rq))"
  proof (intro impI, elim conjE)
    assume p: "req_pathname req = ''/logs''" and j: "req_json req = Inr body"
      and l: "get_prop body ''level'' = Inr lv" and tl: "truthy lv"
      and g: "get_prop body ''message'' = Inr mv" and tm: "truthy mv"
    show "(\<exists>rq. calls (snd (worker_fetch P e req s)) = calls s @ [(world s, rq)]
            \<and> out_method rq = ''POST''
            \<and> out_url rq = SUPABASE_URL e @ ''/rest/v1/console_logs''
            \<and> stamped P (world s, rq))
         \<and> (\<exists>rq. calls (snd (worker_fetch_part000 P e req s)) = calls s @ [(world s, rq)]
            \<and> out_method rq = ''POST''
            \<and> out_url rq = SUPABASE_URL e @ ''/rest/v1/console_logs''
            \<and> stamped P (world s, rq))"
      using handlePostLog_valid_call [OF j l tl g tm, of P e s]
        handlePostLog_part000_valid_call [OF j l tl g tm, of P e s]
      by (simp add: route_post [OF m p] route_post_part000 [OF m p])
  qed
  have g: "req_pathname req = ''/logs/batch'' \<and> req_json req = Inr body
         \<and> get_prop body ''logs'' = Inr (Arr xs) \<longrightarrow>
         length (calls (snd (worker_fetch P e req s)))
           = length (calls s) + length (filter (\<lambda>x. \<not> nullish x) (take 100 xs))
         \<and> length (calls (snd (worker_fetch_part000 P e req s)))
           = length (calls s) + length (filter (\<lambda>x. \<not> nullish x) (take 100 xs))"
    using m by (simp add: route_batch route_batch_part000 handlePostBatch_calls
        handlePostBatch_part000_calls)
  show ?thesis
    by (rule conjI [OF a conjI [OF b conjI [OF c conjI [OF d conjI [OF f g]]]]])
qed


theorem expiry_is_server_stamped_witness:
  "list_all (stamped example_platform)
     (drop (length (calls start)) (calls (snd (worker_fetch example_platform example_env
        (example_post ''/logs'' (Obj [(''level'', Str ''info''), (''message'', Str ''hello'')]))
        start))))
   \<and> worker_fetch_part000 example_platform example_env
        (example_post ''/logs'' (Obj [(''expires_at'', Str ''2999-12-31T00:00:00.000Z''),
           (''level'', Str ''info''), (''message'', Str ''hello'')])) start
     = worker_fetch_part000 example_platform example_env
        (example_post ''/logs'' (Obj [(''level'', Str ''info''), (''message'', Str ''hello'')]))
        start
   \<and> map (\<lambda>c. payload_prop (snd c) ''expires_at'')
        (calls (snd (worker_fetch example_platform example_env
        (example_post ''/logs'' (Obj [(''level'', Str ''info''), (''message'', Str ''hello'')]))
        start)))
     = [Some (Str ''1702592000000'')]
   \<and> worker_fetch example_platform example_env
        (example_post ''/logs/batch'' (Obj [(''logs'',
           Arr [Obj [(''expires_at'', Num 0), (''level'', Str ''info''),
                     (''message'', Str ''started'')],
                Null,
                Obj [(''expires_at'', Null), (''level'', Str ''warn''),
                     (''message'', Str ''slow'')]])])) start
     = worker_fetch example_platform example_env
        (example_post ''/logs/batch'' (Obj [(''logs'', Arr example_entries)])) start
   \<and> map (\<lambda>c. payload_prop (snd c) ''expires_at'')
        (calls (snd (worker_fetch example_platform example_env
        (example_post ''/logs/batch'' (Obj [(''logs'', Arr example_entries)])) start)))
     = [Some (Str ''1702592000000''), Some (Str ''1702592000001'')]
   \<and> map (\<lambda>c. payload_prop (snd c) ''expires_at'')
        (calls (snd (worker_fetch_part000 example_platform example_env
        (example_post ''/logs'' (Obj [(''level'', Str ''info''), (''message'', Str ''hello'')]))
        start)))
     = [Some (Str ''1702592000000'')]
   \<and> map (\<lambda>c. payload_prop (snd c) ''expires_at'')
        (calls (snd (worker_fetch_part000 example_platform example_env
        (example_post ''/logs/batch'' (Obj [(''logs'', Arr example_entries)])) start)))
     = [Some (Str ''1702592000000''), Some (Str ''1702592000001'')]
   \<and> (\<exists>rq. calls (snd (worker_fetch_part000 example_platform example_env
        (example_post ''/logs'' (Obj [(''level'', Str ''info''), (''message'', Str ''hello'')]))
        start)) = [(world start, rq)]
      \<and> out_method rq = ''POST''
      \<and> out_url rq = ''https://db.example/rest/v1/console_logs''
      \<and> stamped example_platform (world start, rq))
   \<and> length (calls (snd (worker_fetch_part000 example_platform example_env
        (example_post ''/logs/batch'' (Obj [(''logs'', Arr example_entries)])) start))) = 2"
proof -
  let ?body = "Obj [(''level'', Str ''info''), (''message'', Str ''hello'')]"
  let ?req = "example_post ''/logs'' ?body"
  have m: "req_method ?req = ''POST''" by (simp add: example_post_def)
  have p: "req_pathname ?req = ''/logs'' \<and> req_json ?req = Inr ?body"
    by (simp add: example_post_def)
  have u: "?req\<lparr>req_json := Inr (with_prop ''expires_at'' (Str ''2999-12-31T00:00:00.000Z'') ?body)\<rparr>
      = example_post ''/logs'' (Obj [(''expires_at'', Str ''2999-12-31T00:00:00.000Z''),
           (''level'', Str ''info''), (''message'', Str ''hello'')])"
    by (simp add: example_post_def)
  have c: "map (\<lambda>c. payload_prop (snd c) ''expires_at'')
        (calls (snd (worker_fetch example_platform example_env ?req start)))
     = [Some (Str ''1702592000000'')]"
    by (simp add: worker_simps platform_simps example_simps payload_prop_def)
  have single: "list_all (stamped example_platform)
     (drop (length (calls start)) (calls (snd (worker_fetch example_platform example_env
        ?req start))))
   \<and> worker_fetch_part000 example_platform example_env
        (example_post ''/logs'' (Obj [(''expires_at'', Str ''2999-12-31T00:00:00.000Z''),
           (''level'', Str ''info''), (''message'', Str ''hello'')])) start
     = worker_fetch_part000 example_platform example_env ?req start"
    using expiry_is_server_stamped [OF m, of example_platform start example_env ?body
        "Str ''2999-12-31T00:00:00.000Z''"] p
    unfolding u by blast
  let ?bbody = "Obj [(''logs'', Arr example_entries)]"
  let ?breq = "example_post ''/logs/batch'' ?bbody"
  have bm: "req_method ?breq = ''POST''" by (simp add: example_post_def)
  have bp: "req_pathname ?breq = ''/logs/batch'' \<and> req_json ?breq = Inr ?bbody
      \<and> get_prop ?bbody ''logs'' = Inr (Arr example_entries)
      \<and> length [Num 0, Bool True, Null] = length example_entries"
    by (simp add: example_post_def example_entries_def)
  have bu: "?breq\<lparr>req_json := Inr (Obj [(''logs'',
        Arr (map2 (with_prop ''expires_at'') [Num 0, Bool True, Null] example_entries))])\<rparr>
      = example_post ''/logs/batch'' (Obj [(''logs'',
           Arr [Obj [(''expires_at'', Num 0), (''level'', Str ''info''),
                     (''message'', Str ''started'')],
                Null,
                Obj [(''expires_at'', Null), (''level'', Str ''warn''),
                     (''message'', Str ''slow'')]])])"
    by (simp add: example_post_def example_entries_def)
  have bc: "map (\<lambda>c. payload_prop (snd c) ''expires_at'')
        (calls (snd (worker_fetch example_platform example_env ?breq start)))
     = [Some (Str ''1702592000000''), Some (Str ''1702592000001'')]"
    by (simp add: worker_simps platform_simps example_simps payload_prop_def)
  have batch: "worker_fetch example_platform example_env
        (example_post ''/logs/batch'' (Obj [(''logs'',
           Arr [Obj [(''expires_at'', Num 0), (''level'', Str ''info''),
                     (''message'', Str ''started'')],
                Null,
                Obj [(''expires_at'', Null), (''level'', Str ''warn''),
                     (''message'', Str ''slow'')]])])) start
     = worker_fetch example_platform example_env ?breq start"
    using expiry_is_server_stamped [OF bm, of example_platform start example_env ?bbody _
        example_entries "[Num 0, Bool True, Null]"] bp
    unfolding bu by blast
  have c': "map (\<lambda>c. payload_prop (snd c) ''expires_at'')
        (calls (snd (worker_fetch_part000 example_platform example_env ?req start)))
     = [Some (Str ''1702592000000'')]"
    by (simp add: part000_simps platform_simps example_simps payload_prop_def)
  have bc': "map (\<lambda>c. payload_prop (snd c) ''expires_at'')
        (calls (snd (worker_fetch_part000 example_platform example_env ?breq start)))
     = [Some (Str ''1702592000000''), Some (Str ''1702592000001'')]"
    by (simp add: part000_simps platform_simps example_simps payload_prop_def)
  have v: "req_pathname ?req = ''/logs'' \<and> req_json ?req = Inr ?body
      \<and> get_prop ?body ''level'' = Inr (Str ''info'') \<and> truthy (Str ''info'')
      \<and> get_prop ?body ''message'' = Inr (Str ''hello'') \<and> truthy (Str ''hello'')"
    by (simp add: example_post_def)
  have z: "calls start = [] \<and> SUPABASE_URL example_env = ''https://db.example''"
    by (simp add: start_def example_env_def)
  have one: "\<exists>rq. calls (snd (worker_fetch_part000 example_platform example_env ?req start))
        = [(world start, rq)]
      \<and> out_method rq = ''POST''
      \<and> out_url rq = ''https://db.example/rest/v1/console_logs''
      \<and> stamped example_platform (world start, rq)"
    using expiry_is_server_stamped [OF m, where P = example_platform and s = start
        and e = example_env and body = ?body and lv = "Str ''info''" and mv = "Str ''hello''",
        THEN conjunct2, THEN conjunct2, THEN conjunct2, THEN conjunct2, THEN conjunct1] v
    by (simp add: z)
  have bv: "req_pathname ?breq = ''/logs/batch'' \<and> req_json ?breq = Inr ?bbody
      \<and> get_prop ?bbody ''logs'' = Inr (Arr example_entries)"
    by (simp add: example_post_def)
  have two: "length (calls (snd (worker_fetch_part000 example_platform example_env ?breq start)))
      = 2"
    using expiry_is_server_stamped [OF bm, where P = example_platform and s = start
        and e = example_env and body = ?bbody and xs = example_entries,
        THEN conjunct2, THEN conjunct2, THEN conjunct2, THEN conjunct2, THEN conjunct2] bv
    by (simp add: z example_entries_def)
  show ?thesis
    by (rule conjI [OF single [THEN conjunct1] conjI [OF single [THEN conjunct2]
        conjI [OF c conjI [OF batch conjI [OF bc conjI [OF c' conjI [OF bc'
        conjI [OF one two]]]]]]]])
qed


subsection \<open>Reading back a printed number\<close>

lemma dec_digit: "d < 10 \<Longrightarrow> is_dec (''0123456789'' ! d) \<and> digit_val 10 (''0123456789'' ! d) = Some d"
proof -
  assume "d < 10"
  then have "d = 0 \<or> d = 1 \<or> d = 2 \<or> d = 3 \<or> d = 4 \<or> d = 5 \<or> d = 6 \<or> d = 7
    \<or> d = 8 \<or> d = 9" by arith
  then show ?thesis by (elim disjE) (simp_all add: is_dec_def digit_val_def)
qed

lemma digits_dec: "list_all is_dec (digits n)"
proof (induction n rule: digits.induct)
  case (1 n)
  show ?case
  proof (cases "n < 10")
    case True
    then show ?thesis using dec_digit [of n] by (simp add: digits.simps [of n])
  next
    case False
    then show ?thesis using 1 dec_digit [of "n mod 10"] by (simp add: digits.simps [of n])
  qed
qed

lemma digits_not_Nil: "digits n \<noteq> []"
  by (simp add: digits.simps [of n])

lemma read_digits_append:
  "read_digits 10 (digits n @ rest) acc seen
     = read_digits 10 rest (acc * 10 ^ length (digits n) + n) True"
proof (induction n arbitrary: rest acc seen rule: digits.induct)
  case (1 n)
  show ?case
  proof (cases "n < 10")
    case True
    then show ?thesis using dec_digit [of n] by (simp add: digits.simps [of n])
  next
    case False
    have "read_digits 10 (digits n @ rest) acc seen
        = read_digits 10 (digits (n div 10) @ (''0123456789'' ! (n mod 10)) # rest) acc seen"
      using False by (simp add: digits.simps [of n])
    also have "\<dots> = read_digits 10 ((''0123456789'' ! (n mod 10)) # rest)
        (acc * 10 ^ length (digits (n div 10)) + n div 10) True"
      using 1 [OF False] by simp
    also have "\<dots> = read_digits 10 rest
        ((acc * 10 ^ length (digits (n div 10)) + n div 10) * 10 + n mod 10) True"
      using dec_digit [of "n mod 10"] by simp
    also have "(acc * 10 ^ length (digits (n div 10)) + n div 10) * 10 + n mod 10
        = acc * 10 ^ length (digits n) + n"
      using False by (simp add: digits.simps [of n] algebra_simps)
    finally show ?thesis .
  qed
qed

lemma read_digits_digits: "read_digits 10 (digits n) 0 False = Some n"
  using read_digits_append [of n "[]" 0 False] by simp

lemma is_dec_plain:
  assumes "is_dec a"
  shows "\<not> ascii_ws a" and "a \<noteq> CHR 0xC2" and "\<not> ws3 a b c" and "a \<noteq> CHR ''-''"
    and "a \<noteq> CHR ''+''" and "a \<noteq> CHR ''x''" and "a \<noteq> CHR ''X''"
  using assms by (auto simp: is_dec_def ascii_ws_def ws3_def)

lemma strip_ws_dec: "is_dec a \<Longrightarrow> strip_ws (a # s) = a # s"
proof (cases s)
  case Nil
  assume "is_dec a"
  with Nil show ?thesis by (simp add: is_dec_plain)
next
  case (Cons b s')
  assume a: "is_dec a"
  show ?thesis
  proof (cases s')
    case Nil
    with Cons a show ?thesis by (simp add: is_dec_plain)
  next
    case (Cons c s'')
    with \<open>s = b # s'\<close> a show ?thesis by (simp add: is_dec_plain)
  qed
qed

lemma strip_ws_minus: "strip_ws (CHR ''-'' # s) = CHR ''-'' # s"
proof (cases s)
  case Nil
  then show ?thesis by (simp add: ascii_ws_def)
next
  case (Cons b s')
  show ?thesis
  proof (cases s')
    case Nil
    with Cons show ?thesis by (simp add: ascii_ws_def)
  next
    case (Cons c s'')
    with \<open>s = b # s'\<close> show ?thesis by (simp add: ascii_ws_def ws3_def)
  qed
qed

lemma not_hex_prefix:
  assumes "list_all is_dec s"
  shows "take 2 s \<noteq> ''0x''" and "take 2 s \<noteq> ''0X''"
proof -
  show "take 2 s \<noteq> ''0x''"
  proof (cases s)
    case Nil
    then show ?thesis by simp
  next
    case (Cons a s')
    with assms show ?thesis by (cases s') (auto simp: is_dec_plain)
  qed
  show "take 2 s \<noteq> ''0X''"
  proof (cases s)
    case Nil
    then show ?thesis by simp
  next
    case (Cons a s')
    with assms show ?thesis by (cases s') (auto simp: is_dec_plain)
  qed
qed

lemma parse_digits: "js_parseInt_string (digits n) = to_number (int n)"
proof -
  obtain a s where d: "digits n = a # s" using digits_not_Nil [of n] by (cases "digits n") auto
  have all: "list_all is_dec (digits n)" by (rule digits_dec)
  with d have a: "is_dec a" by simp
  have st: "strip_ws (digits n) = digits n" using a d by (simp add: strip_ws_dec)
  have sg: "take 1 (digits n) \<noteq> ''-''" "take 1 (digits n) \<noteq> ''+''"
    using a d by (simp_all add: is_dec_plain)
  show ?thesis
    using st sg not_hex_prefix [OF all] read_digits_digits [of n]
    by (simp add: js_parseInt_string_def)
qed

lemma parse_minus_digits: "js_parseInt_string (CHR ''-'' # digits n) = to_number (- int n)"
proof -
  have all: "list_all is_dec (digits n)" by (rule digits_dec)
  show ?thesis
    using not_hex_prefix [OF all] read_digits_digits [of n]
    by (simp add: js_parseInt_string_def strip_ws_minus)
qed

lemma parse_printed: "js_parseInt (Some (num_to_string i)) = to_number i"
  by (simp add: js_parseInt_def num_to_string_def parse_digits parse_minus_digits)

lemma parse_absent: "js_parseInt None = NaN"
  by (simp add: js_parseInt_def js_parseInt_string_def ascii_ws_def ws3_def digit_val_def)

subsection \<open>The query of a read\<close>

lemma limit_as_claimed: "js_min (num_or x (Exact 100)) (Exact 500) = claimed_limit x"
  by (cases x) simp_all




lemma handleGetLogs_call:
  "calls (snd (handleGetLogs P e req s)) = calls s @ [(world s,
     \<lparr>out_url = logs_query e
        @ number_text P (claimed_limit (js_parseInt (req_searchParam req ''limit'')))
        @ (case req_searchParam req ''session'' of
             None \<Rightarrow> []
           | Some sid \<Rightarrow> if sid = [] then [] else ''&session_id=eq.'' @ encodeURIComponent sid),
      out_method = ''GET'',
      out_headers = backend_headers e (''Accept'', ''application/json''),
      out_body = None\<rparr>)]"
  by (simp add: handleGetLogs_def logs_query_def Let_def do_fetch_def case_prod_unfold
      limit_as_claimed split: fetch_result.splits sum.splits option.splits)

lemma handleGetLogs_part000_call:
  "calls (snd (handleGetLogs_part000 P e req s)) = calls s @ [(world s,
     \<lparr>out_url = logs_query e
        @ number_text P (claimed_limit (js_parseInt (req_searchParam req ''limit'')))
        @ ''&offset=''
        @ number_text P (num_or (js_parseInt (req_searchParam req ''offset'')) (Exact 0))
        @ (case req_searchParam req ''session'' of
             None \<Rightarrow> []
           | Some sid \<Rightarrow> if sid = [] then [] else ''&session_id=eq.'' @ encodeURIComponent sid),
      out_method = ''GET'',
      out_headers = backend_headers e (''Accept'', ''application/json''),
      out_body = None\<rparr>)]"
  by (simp add: handleGetLogs_part000_def logs_query_def Let_def do_fetch_def case_prod_unfold
      limit_as_claimed split: fetch_result.splits sum.splits option.splits)

text \<open>
  Claim C10. For \<^verbatim>\<open>GET /logs\<close>, in both files, the one call to the backend has a
  query that starts with \<^verbatim>\<open>...&limit=\<close> followed by the text of the effective
  limit and then ends or goes on with \<^verbatim>\<open>&\<close>. The effective limit is
  \<open>claimed_limit\<close> of the number \<^verbatim>\<open>parseInt\<close> makes of the \<^verbatim>\<open>limit\<close>
  parameter: exactly 100 when the parameter is absent, is no integer or parses to 0,
  and a negative number unchanged, since 500 bounds it from above only. An absent
  parameter parses to \<^verbatim>\<open>NaN\<close>; the decimal digits of an integer \<open>n\<close> parse to the
  double for \<open>n\<close>; and a negative \<open>n\<close> down to \<open>- (2 ^ 53)\<close> goes into the query in
  the digits it came in. (Below that the number is a rounded double, and its text is
  the engine's, such as \<^verbatim>\<open>-1e+21\<close>.)
\<close>

theorem limit_default_and_negative:
  assumes m: "req_method req = ''GET''" and p: "req_pathname req = ''/logs''"
  shows
   "(\<exists>rq rest. calls (snd (worker_fetch P e req s)) = calls s @ [(world s, rq)]
        \<and> out_url rq = logs_query e
             @ number_text P (claimed_limit (js_parseInt (req_searchParam req ''limit'')))
             @ rest
        \<and> (rest = [] \<or> (\<exists>t. rest = CHR ''&'' # t)))
    \<and> (\<exists>rq rest. calls (snd (worker_fetch_part000 P e req s)) = calls s @ [(world s, rq)]
        \<and> out_url rq = logs_query e
             @ number_text P (claimed_limit (js_parseInt (req_searchParam req ''limit'')))
             @ rest
        \<and> (rest = [] \<or> (\<exists>t. rest = CHR ''&'' # t)))
    \<and> js_parseInt None = NaN
    \<and> (\<forall>n. js_parseInt (Some (num_to_string n)) = to_number n)
    \<and> (\<forall>n. - (2 ^ 53) \<le> n \<and> n < 0
           \<and> req_searchParam req ''limit'' = Some (num_to_string n) \<longrightarrow>
         number_text P (claimed_limit (js_parseInt (req_searchParam req ''limit'')))
           = num_to_string n)"
proof -
  let ?L = "claimed_limit (js_parseInt (req_searchParam req ''limit''))"
  let ?F = "case req_searchParam req ''session'' of
             None \<Rightarrow> []
           | Some sid \<Rightarrow> if sid = [] then [] else ''&session_id=eq.'' @ encodeURIComponent sid"
  have f: "?F = [] \<or> (\<exists>t. ?F = CHR ''&'' # t)"
    by (simp split: option.splits)
  have a: "\<exists>rq rest. calls (snd (worker_fetch P e req s)) = calls s @ [(world s, rq)]
        \<and> out_url rq = logs_query e @ number_text P ?L @ rest
        \<and> (rest = [] \<or> (\<exists>t. rest = CHR ''&'' # t))"
    using f
    by (simp add: route_get [OF m p] handleGetLogs_call)
  have b: "\<exists>rq rest. calls (snd (worker_fetch_part000 P e req s)) = calls s @ [(world s, rq)]
        \<and> out_url rq = logs_query e @ number_text P ?L @ rest
        \<and> (rest = [] \<or> (\<exists>t. rest = CHR ''&'' # t))"
    by (simp add: route_get_part000 [OF m p] handleGetLogs_part000_call)
  have c: "\<forall>n. - (2 ^ 53) \<le> n \<and> n < 0
           \<and> req_searchParam req ''limit'' = Some (num_to_string n) \<longrightarrow>
         number_text P ?L = num_to_string n"
    by (simp add: parse_printed to_number_def)
  from a b c parse_absent parse_printed show ?thesis by blast
qed

theorem limit_default_and_negative_witness:
  "(\<exists>rq rest.
       calls (snd (worker_fetch example_platform example_env
          (example_get ''/logs'' [''limit'' \<mapsto> ''-5'']) start)) = [(0, rq)]
       \<and> out_url rq = logs_query example_env @ ''-5'' @ rest
       \<and> (rest = [] \<or> (\<exists>t. rest = CHR ''&'' # t)))
   \<and> (\<exists>rq rest.
       calls (snd (worker_fetch_part000 example_platform example_env
          (example_get ''/logs'' [''limit'' \<mapsto> ''-5'']) start)) = [(0, rq)]
       \<and> out_url rq = logs_query example_env @ ''-5'' @ rest
       \<and> (rest = [] \<or> (\<exists>t. rest = CHR ''&'' # t)))
   \<and> (\<exists>rq rest.
       calls (snd (worker_fetch example_platform example_env
          (example_get ''/logs'' [''limit'' \<mapsto> ''-1000000000000000000000'']) start))
         = [(0, rq)]
       \<and> out_url rq = logs_query example_env @ ''-1e+21'' @ rest
       \<and> (rest = [] \<or> (\<exists>t. rest = CHR ''&'' # t)))
   \<and> claimed_limit (js_parseInt (Some ''abc'')) = Exact 100
   \<and> claimed_limit (js_parseInt (Some ''0'')) = Exact 100
   \<and> claimed_limit (js_parseInt None) = Exact 100
   \<and> claimed_limit (js_parseInt (Some ''9999'')) = Exact 500"
proof -
  let ?req = "example_get ''/logs'' [''limit'' \<mapsto> ''-5'']"
  let ?big = "example_get ''/logs'' [''limit'' \<mapsto> ''-1000000000000000000000'']"
  have m: "req_method ?req = ''GET''" and p: "req_pathname ?req = ''/logs''"
    by (simp_all add: example_get_def)
  have m': "req_method ?big = ''GET''" and p': "req_pathname ?big = ''/logs''"
    by (simp_all add: example_get_def)
  have l: "number_text example_platform
      (claimed_limit (js_parseInt (req_searchParam ?req ''limit''))) = ''-5''"
    by (simp add: example_get_def platform_simps)
  have l': "number_text example_platform
      (claimed_limit (js_parseInt (req_searchParam ?big ''limit''))) = ''-1e+21''"
    by (simp add: example_get_def example_platform_def platform_simps)
  have s: "calls start = []" "world start = 0" by (simp_all add: start_def)
  have e: "claimed_limit (js_parseInt (Some ''abc'')) = Exact 100
     \<and> claimed_limit (js_parseInt (Some ''0'')) = Exact 100
     \<and> claimed_limit (js_parseInt None) = Exact 100
     \<and> claimed_limit (js_parseInt (Some ''9999'')) = Exact 500"
    by (simp add: platform_simps)
  have small: "(\<exists>rq rest.
       calls (snd (worker_fetch example_platform example_env ?req start)) = [(0, rq)]
       \<and> out_url rq = logs_query example_env @ ''-5'' @ rest
       \<and> (rest = [] \<or> (\<exists>t. rest = CHR ''&'' # t)))
   \<and> (\<exists>rq rest.
       calls (snd (worker_fetch_part000 example_platform example_env ?req start)) = [(0, rq)]
       \<and> out_url rq = logs_query example_env @ ''-5'' @ rest
       \<and> (rest = [] \<or> (\<exists>t. rest = CHR ''&'' # t)))"
    using limit_default_and_negative [OF m p, of example_platform example_env start]
    unfolding l s by simp
  have big: "\<exists>rq rest.
       calls (snd (worker_fetch example_platform example_env ?big start)) = [(0, rq)]
       \<and> out_url rq = logs_query example_env @ ''-1e+21'' @ rest
       \<and> (rest = [] \<or> (\<exists>t. rest = CHR ''&'' # t))"
    using limit_default_and_negative [OF m' p', of example_platform example_env start]
    unfolding l' s by simp
  from small big e show ?thesis by blast
qed












text \<open>
  Claim C2 does not hold of the code. \<open>insertSingleLog\<close> does not check \<^verbatim>\<open>level\<close>
  and \<^verbatim>\<open>message\<close> (\<open>handlePostLog\<close> does): in both files a batch with the one entry
  \<^verbatim>\<open>{"session_id": "s1"}\<close> is sent to the backend, without \<^verbatim>\<open>level\<close> and
  \<^verbatim>\<open>message\<close>, and when the backend accepts it the response counts it as saved.
\<close>

theorem batch_entry_without_level_is_saved:
  "worker_fetch example_platform example_env
      (example_post ''/logs/batch'' (Obj [(''logs'', Arr [Obj [(''session_id'', Str ''s1'')]])]))
      start
    = (jsonResponse (Obj [(''success'', Bool True), (''total'', Num 1), (''saved'', Num 1),
                          (''failed'', Num 0)]) 201,
       \<lparr>world = 1, calls = [(0,
         \<lparr>out_url = ''https://db.example/rest/v1/console_logs'', out_method = ''POST'',
          out_headers = [(''apikey'', ''key''), (''Authorization'', ''Bearer key''),
                         (''Content-Type'', ''application/json''),
                         (''Prefer'', ''return=minimal'')],
          out_body = Some (Obj
            [(''session_id'', Str ''s1''),
             (''level'', Undefined),
             (''category'', Str ''system''),
             (''message'', Undefined),
             (''source'', Str ''Unknown''),
             (''meta'', Obj []),
             (''stack_trace'', Undefined),
             (''user_agent'', Null),
             (''url'', Null),
             (''expires_at'', Str ''1702592000000'')])\<rparr>)]\<rparr>)
   \<and> fst (worker_fetch_part000 example_platform example_env
      (example_post ''/logs/batch'' (Obj [(''logs'', Arr [Obj [(''session_id'', Str ''s1'')]])]))
      start)
    = jsonResponse_part000 (Obj [(''success'', Bool True), (''total'', Num 1), (''saved'', Num 1),
                          (''failed'', Num 0)]) 201"
  by (simp add: worker_simps part000_simps platform_simps example_simps)

end
